theory Spec2Isabelle
  imports Complex_Main
begin

section \<open>Plan hierarchy (change-plan and preview handlers)\<close>

text \<open>
  \<^verbatim>\<open>const PLAN_HIERARCHY = { 'trial': 0, 'monthly': 1, 'semiannual': 2, 'annual': 3 };\<close>
  The object literal is an association from plan names to ranks. Plan types are strings in
  the source (request bodies and database columns), and they stay strings here.
\<close>

definition PLAN_HIERARCHY :: "(string \<times> int) list" where
  "PLAN_HIERARCHY = [(''trial'', 0), (''monthly'', 1), (''semiannual'', 2), (''annual'', 3)]"

text \<open>
  \<^verbatim>\<open>PLAN_HIERARCHY[planType as keyof typeof PLAN_HIERARCHY] || 0\<close>:
  a key that is not in the table reads as \<open>undefined\<close>, which \<open>|| 0\<close> turns into 0
  (as it does the rank 0 of \<open>trial\<close>).
\<close>

definition planLevel :: "string \<Rightarrow> int" where
  "planLevel p = (case map_of PLAN_HIERARCHY p of None \<Rightarrow> 0 | Some l \<Rightarrow> (if l = 0 then 0 else l))"

text \<open>The four plan types of the data model.\<close>

definition plan_types :: "string list" where
  "plan_types = [''trial'', ''monthly'', ''semiannual'', ''annual'']"

text \<open>\<^verbatim>\<open>const isUpgrade = newPlanLevel > currentPlanLevel;\<close>\<close>

definition isUpgrade :: "string \<Rightarrow> string \<Rightarrow> bool" where
  "isUpgrade currentPlan newPlanType = (planLevel newPlanType > planLevel currentPlan)"

text \<open>
  The preview handler: \<^verbatim>\<open>const isDowngrade = newPlanLevel < currentPlanLevel;\<close>
\<close>

definition isDowngrade :: "string \<Rightarrow> string \<Rightarrow> bool" where
  "isDowngrade currentPlan newPlanType = (planLevel newPlanType < planLevel currentPlan)"

text \<open>
  \<^verbatim>\<open>
  const hasIntervalChange = (currentSub.plan_type === 'monthly' && newPlanType !== 'monthly') ||
                            (currentSub.plan_type !== 'monthly' && newPlanType === 'monthly') ||
                            (currentSub.plan_type === 'semiannual' && newPlanType === 'annual') ||
                            (currentSub.plan_type === 'annual' && newPlanType === 'semiannual');
  \<close>
\<close>

definition hasIntervalChange :: "string \<Rightarrow> string \<Rightarrow> bool" where
  "hasIntervalChange currentPlan newPlanType =
     ((currentPlan = ''monthly'' \<and> newPlanType \<noteq> ''monthly'') \<or>
      (currentPlan \<noteq> ''monthly'' \<and> newPlanType = ''monthly'') \<or>
      (currentPlan = ''semiannual'' \<and> newPlanType = ''annual'') \<or>
      (currentPlan = ''annual'' \<and> newPlanType = ''semiannual''))"

text \<open>
  The change-plan handler computes its own flag after the remote update:
  \<^verbatim>\<open>const isDowngrade = newPlanLevel < currentPlanLevel && !hasIntervalChange;\<close>
\<close>

definition isDowngrade_change_plan :: "string \<Rightarrow> string \<Rightarrow> bool" where
  "isDowngrade_change_plan currentPlan newPlanType =
     (planLevel newPlanType < planLevel currentPlan \<and> \<not> hasIntervalChange currentPlan newPlanType)"

section \<open>Period calculator (webhook handler)\<close>

text \<open>
  The remote subscription object, with the fields the handlers read
  (\<open>sub_item_id\<close> is \<open>items.data[0].id\<close>, \<open>sub_latest_invoice\<close> the invoice id,
  \<open>sub_client_secret\<close> is \<open>latest_invoice?.payment_intent?.client_secret\<close>). Timestamps of the
  provider are Unix seconds; \<open>new Date(s * 1000)\<close> is the instant \<open>s * 1000\<close> in
  milliseconds, which is what \<open>getTime()\<close> returns and what \<open>toISOString()\<close> prints.
  A JavaScript \<open>Date\<close> and an ISO-8601 column value are modelled by that millisecond count.
\<close>

record stripe_subscription =
  sub_id :: string
  sub_status :: string
  sub_customer :: string
  sub_current_period_start :: int
  sub_current_period_end :: int
  sub_cancel_at_period_end :: bool
  sub_item_id :: string
  sub_metadata :: "(string \<times> string) list"
  sub_latest_invoice :: string
  sub_client_secret :: "string option"

record period_calculation =
  pc_start :: int
  pc_end :: int
  pc_source :: string
  pc_durationDays :: int
  pc_isAccurate :: bool

text \<open>
  \<^verbatim>\<open>Math.ceil(x / (1000 * 60 * 60 * 24))\<close> on an integer millisecond count: the ceiling of
  the quotient, written with integer division.
\<close>

definition ceil_days :: "int \<Rightarrow> int" where
  "ceil_days ms = - ((- ms) div (1000 * 60 * 60 * 24))"

text \<open>
  \<^verbatim>\<open>
  function calculatePeriodFromStripe(subscription, planType) {
    const start = new Date(subscription.current_period_start * 1000);
    const end = new Date(subscription.current_period_end * 1000);
    const durationDays = Math.ceil((end.getTime() - start.getTime()) / (1000 * 60 * 60 * 24));
    let isAccurate = true;
    switch(planType){
      case 'monthly':    isAccurate = durationDays >= 28 && durationDays <= 31; break;
      case 'semiannual': isAccurate = durationDays >= 180 && durationDays <= 186; break;
      case 'annual':     isAccurate = durationDays >= 360 && durationDays <= 370; break;
      case 'trial':      isAccurate = durationDays >= 28 && durationDays <= 32; break;
    }
    return { start, end, source: 'stripe_subscription', durationDays, isAccurate };
  }
  \<close>
  There is no \<open>default\<close> case: any other plan type keeps \<open>isAccurate = true\<close>. The function
  has no \<open>throw\<close>, so the model is a total function and not an error sum.
\<close>

definition calculatePeriodFromStripe :: "stripe_subscription \<Rightarrow> string \<Rightarrow> period_calculation" where
  "calculatePeriodFromStripe subscription planType =
     (let start = sub_current_period_start subscription * 1000;
          end' = sub_current_period_end subscription * 1000;
          durationDays = ceil_days (end' - start);
          isAccurate =
            (if planType = ''monthly'' then durationDays \<ge> 28 \<and> durationDays \<le> 31
             else if planType = ''semiannual'' then durationDays \<ge> 180 \<and> durationDays \<le> 186
             else if planType = ''annual'' then durationDays \<ge> 360 \<and> durationDays \<le> 370
             else if planType = ''trial'' then durationDays \<ge> 28 \<and> durationDays \<le> 32
             else True)
      in \<lparr> pc_start = start, pc_end = end', pc_source = ''stripe_subscription'',
           pc_durationDays = durationDays, pc_isAccurate = isAccurate \<rparr>)"


section \<open>Local subscription store and remote provider\<close>

text \<open>
  Migration: \<^verbatim>\<open>ALTER TABLE subscriptions ADD COLUMN IF NOT EXISTS pending_plan_change jsonb DEFAULT NULL;\<close>
  with the documented content \<^verbatim>\<open>{ plan_type: string, price_id: string, requested_at: timestamp }\<close>
  and the column comment "Stores pending plan downgrade that will take effect at period end".
\<close>

record pending_plan_change_t =
  ppc_plan_type :: string
  ppc_price_id :: string
  ppc_requested_at :: int

text \<open>
  A row of the \<open>subscriptions\<close> table, with the columns the handlers read and write.
  Nullable columns are options; timestamp columns hold milliseconds (see above).
\<close>

record subscription_row =
  row_id :: string
  user_id :: string
  plan_type :: string
  status :: string
  stripe_subscription_id :: "string option"
  stripe_customer_id :: "string option"
  current_period_start :: int
  current_period_end :: int
  cancel_at_period_end :: bool
  card_fingerprint :: "string option"
  pending_plan_change :: "pending_plan_change_t option"
  updated_at :: int

type_synonym subscriptions_table = "subscription_row list"

text \<open>JavaScript truthiness of an optional string: \<open>null\<close>, \<open>undefined\<close> and \<open>''\<close> are falsy.\<close>

fun truthy :: "string option \<Rightarrow> bool" where
  "truthy None = False"
| "truthy (Some s) = (s \<noteq> [])"

text \<open>\<^verbatim>\<open>.maybeSingle()\<close> and \<^verbatim>\<open>.single()\<close>: the row when exactly one matches, else \<open>data: null\<close>.\<close>

fun maybeSingle :: "'a list \<Rightarrow> 'a option" where
  "maybeSingle [x] = Some x"
| "maybeSingle _ = None"

text \<open>\<^verbatim>\<open>.update(values).eq('id', id)\<close>: every row with that id gets the values.\<close>

definition update_eq_id :: "string \<Rightarrow> (subscription_row \<Rightarrow> subscription_row) \<Rightarrow> subscriptions_table \<Rightarrow> subscriptions_table" where
  "update_eq_id i vals db = map (\<lambda>r. if row_id r = i then vals r else r) db"

text \<open>\<^verbatim>\<open>message.includes(sub)\<close>: \<open>sub\<close> occurs in \<open>message\<close> as a contiguous substring.\<close>

fun str_includes :: "string \<Rightarrow> string \<Rightarrow> bool" where
  "str_includes [] sub = (sub = [])"
| "str_includes (c # cs) sub = (take (length sub) (c # cs) = sub \<or> str_includes cs sub)"

text \<open>
  Parameters of \<^verbatim>\<open>stripe.subscriptions.update\<close> and \<^verbatim>\<open>stripe.subscriptions.create\<close>: JavaScript
  objects whose keys may be absent (\<open>None\<close>). \<open>trial_end\<close> is the string \<open>'now'\<close> or a
  Unix timestamp.
\<close>

datatype trial_end_t = TrialEndNow | TrialEndAt int

record update_params =
  up_items :: "(string \<times> string) option"
  up_metadata :: "(string \<times> string) list option"
  up_trial_end :: "trial_end_t option"
  up_proration_behavior :: "string option"
  up_billing_cycle_anchor :: "string option"
  up_cancel_at_period_end :: "bool option"
  up_default_payment_method :: "string option"

record create_params =
  cp_customer :: "string option"
  cp_price :: "string option"
  cp_default_payment_method :: "string option"
  cp_trial_period_days :: "int option"
  cp_trial_end :: "int option"
  cp_cancel_at_period_end :: "bool option"
  cp_metadata :: "(string \<times> string) list"

text \<open>
  What one handler invocation sees of the outside: the authenticated caller, the clock, a
  fresh row id for inserts, and the provider's answer to each SDK call. A call that throws
  is \<open>Inl message\<close> (\<open>Some message\<close> for the calls whose result is not used). All
  \<open>new Date()\<close> of one invocation read the same instant \<open>now_ms\<close>.
  \<open>invoices_retrieve\<close> gives \<open>payment_intent?.client_secret\<close> of the invoice;
  \<open>paymentMethods_retrieve\<close> gives \<open>card?.fingerprint\<close>.
\<close>

record stripe_env =
  auth_user :: "string option"
  now_ms :: int
  new_row_id :: string
  paymentMethods_retrieve :: "string \<Rightarrow> string + string option"
  paymentMethods_attach :: "string \<Rightarrow> string \<Rightarrow> string option"
  customers_update :: "string \<Rightarrow> string \<Rightarrow> string option"
  customers_create :: "string \<Rightarrow> string + string"
  subscriptions_retrieve :: "string \<Rightarrow> string + stripe_subscription"
  subscriptions_update :: "string \<Rightarrow> update_params \<Rightarrow> string + stripe_subscription"
  subscriptions_create :: "create_params \<Rightarrow> string + stripe_subscription"
  invoices_retrieve :: "string \<Rightarrow> string + string option"

text \<open>
  \<^verbatim>\<open>
  try { await stripe.paymentMethods.attach(paymentMethodId, { customer: stripeCustomerId });
        await stripe.customers.update(stripeCustomerId, { invoice_settings: { default_payment_method: paymentMethodId } });
  } catch (e: any) { if (!e.message.includes('attached')) throw e; }
  \<close>
  \<open>None\<close>: the handler goes on; \<open>Some message\<close>: the error is thrown again.
\<close>

definition attach_payment_method :: "stripe_env \<Rightarrow> string \<Rightarrow> string \<Rightarrow> string option" where
  "attach_payment_method env paymentMethodId stripeCustomerId =
     (case paymentMethods_attach env paymentMethodId stripeCustomerId of
        Some m \<Rightarrow> (if \<not> str_includes m ''attached'' then Some m else None)
      | None \<Rightarrow>
          (case customers_update env stripeCustomerId paymentMethodId of
             Some m \<Rightarrow> (if \<not> str_includes m ''attached'' then Some m else None)
           | None \<Rightarrow> None))"

section \<open>create-payment handler\<close>

record create_payment_request =
  req_planType :: string
  req_autoRenew :: bool
  req_paymentMethodId :: "string option"
  req_priceId :: "string option"
  req_isTrial :: bool

record create_payment_response =
  resp_clientSecret :: "string option"
  resp_subscriptionId :: string

text \<open>
  \<^verbatim>\<open>
  let cardFingerprint: string | null = null;
  if (paymentMethodId) {
      try { const pm = await stripe.paymentMethods.retrieve(paymentMethodId);
            cardFingerprint = pm.card?.fingerprint || null; } catch (e) {}
  }
  \<close>
\<close>

definition cardFingerprint_of :: "stripe_env \<Rightarrow> string option \<Rightarrow> string option" where
  "cardFingerprint_of env paymentMethodId =
     (if truthy paymentMethodId then
        (case paymentMethods_retrieve env (the paymentMethodId) of
           Inl _ \<Rightarrow> None
         | Inr fp \<Rightarrow> (if truthy fp then fp else None))
      else None)"

text \<open>
  \<^verbatim>\<open>
  const { data: duplicates } = await supabaseAdmin.from('subscriptions')
      .select('id').eq('card_fingerprint', cardFingerprint).neq('user_id', user.id).limit(1);
  \<close>
\<close>

definition duplicates :: "subscriptions_table \<Rightarrow> string \<Rightarrow> string \<Rightarrow> subscription_row list" where
  "duplicates db cardFingerprint uid =
     take 1 (filter (\<lambda>r. card_fingerprint r = Some cardFingerprint \<and> user_id r \<noteq> uid) db)"

text \<open>\<^verbatim>\<open>const finalPlanType = isTrial ? 'trial' : planType;\<close>\<close>

definition finalPlanType :: "create_payment_request \<Rightarrow> string" where
  "finalPlanType req = (if req_isTrial req then ''trial'' else req_planType req)"

text \<open>
  The update parameters of the change path:
  \<^verbatim>\<open>
  const updateParams: any = {
      items: [{ id: currentSub.items.data[0].id, price: priceId }],
      cancel_at_period_end: !autoRenew,
      metadata: { plan_type: finalPlanType, is_trial: String(!!isTrial) } };
  if (isSwitchingFromRealTrial && !isTrial) {
      updateParams.trial_end = 'now'; updateParams.proration_behavior = 'create_prorations';
  } else {
      updateParams.trial_end = currentSub.current_period_end; updateParams.proration_behavior = 'none';
  }
  \<close>
\<close>

definition create_payment_updateParams ::
  "subscription_row \<Rightarrow> stripe_subscription \<Rightarrow> create_payment_request \<Rightarrow> update_params" where
  "create_payment_updateParams dbSub currentSub req =
     (let isSwitchingFromRealTrial = (plan_type dbSub = ''trial'')
      in \<lparr> up_items = Some (sub_item_id currentSub, the (req_priceId req)),
           up_metadata = Some [(''plan_type'', finalPlanType req),
                               (''is_trial'', if req_isTrial req then ''true'' else ''false'')],
           up_trial_end = (if isSwitchingFromRealTrial \<and> \<not> req_isTrial req then Some TrialEndNow
                           else Some (TrialEndAt (sub_current_period_end currentSub))),
           up_proration_behavior = (if isSwitchingFromRealTrial \<and> \<not> req_isTrial req
                                    then Some ''create_prorations'' else Some ''none''),
           up_billing_cycle_anchor = None,
           up_cancel_at_period_end = Some (\<not> req_autoRenew req),
           up_default_payment_method = None \<rparr>)"

text \<open>
  \<^verbatim>\<open>
  const subData: any = { user_id: user.id, plan_type: finalPlanType, status: subscription.status,
      stripe_subscription_id: subscription.id, stripe_customer_id: stripeCustomerId,
      current_period_start: new Date(subscription.current_period_start * 1000).toISOString(),
      current_period_end: new Date(subscription.current_period_end * 1000).toISOString(),
      cancel_at_period_end: subscription.cancel_at_period_end, updated_at: new Date().toISOString() };
  if (cardFingerprint) subData.card_fingerprint = cardFingerprint;
  \<close>
  applied to a row (the columns that \<open>subData\<close> does not name keep their values);
  \<open>planType\<close> is the handler's \<open>finalPlanType\<close>.
\<close>

definition subData ::
  "string \<Rightarrow> string \<Rightarrow> stripe_subscription \<Rightarrow> string \<Rightarrow> string option \<Rightarrow> int
     \<Rightarrow> subscription_row \<Rightarrow> subscription_row" where
  "subData uid planType subscription stripeCustomerId cardFingerprint now r =
     r\<lparr> user_id := uid,
        plan_type := planType,
        status := sub_status subscription,
        stripe_subscription_id := Some (sub_id subscription),
        stripe_customer_id := Some stripeCustomerId,
        current_period_start := sub_current_period_start subscription * 1000,
        current_period_end := sub_current_period_end subscription * 1000,
        cancel_at_period_end := sub_cancel_at_period_end subscription,
        updated_at := now,
        card_fingerprint := (case cardFingerprint of Some fp \<Rightarrow> Some fp | None \<Rightarrow> card_fingerprint r) \<rparr>"

text \<open>A fresh row for \<^verbatim>\<open>.insert(subData)\<close>: the other columns take their defaults (NULL).\<close>

definition blank_row :: "string \<Rightarrow> subscription_row" where
  "blank_row i = \<lparr> row_id = i, user_id = [], plan_type = [], status = [],
       stripe_subscription_id = None, stripe_customer_id = None,
       current_period_start = 0, current_period_end = 0, cancel_at_period_end = False,
       card_fingerprint = None, pending_plan_change = None, updated_at = 0 \<rparr>"

text \<open>
  Customer setup:
  \<^verbatim>\<open>
  const { data: dbSub } = await supabaseAdmin.from('subscriptions').select('*').eq('user_id', user.id).maybeSingle();
  if (dbSub?.stripe_customer_id) { stripeCustomerId = dbSub.stripe_customer_id; } else {
      const c = await stripe.customers.create({ email: user.email, metadata: { supabase_user_id: user.id } });
      stripeCustomerId = c.id; }
  \<close>
\<close>

definition dbSub_of :: "subscriptions_table \<Rightarrow> string \<Rightarrow> subscription_row option" where
  "dbSub_of db uid = maybeSingle (filter (\<lambda>r. user_id r = uid) db)"

definition customer_setup :: "stripe_env \<Rightarrow> string \<Rightarrow> subscription_row option \<Rightarrow> string + string" where
  "customer_setup env uid dbSub =
     (case dbSub of
        Some r \<Rightarrow> (if truthy (stripe_customer_id r) then Inr (the (stripe_customer_id r))
                   else customers_create env uid)
      | None \<Rightarrow> customers_create env uid)"

text \<open>
  \<^verbatim>\<open>
  let activeStripeSubId = dbSub?.stripe_subscription_id;
  if (activeStripeSubId) {
      try { const s = await stripe.subscriptions.retrieve(activeStripeSubId);
            if (s.status === 'canceled') activeStripeSubId = null; } catch { activeStripeSubId = null; }
  }
  \<close>
\<close>

definition activeStripeSubId_of :: "stripe_env \<Rightarrow> subscription_row option \<Rightarrow> string option" where
  "activeStripeSubId_of env dbSub =
     (case dbSub of
        None \<Rightarrow> None
      | Some r \<Rightarrow>
          (if truthy (stripe_subscription_id r) then
             (case subscriptions_retrieve env (the (stripe_subscription_id r)) of
                Inl _ \<Rightarrow> None
              | Inr s \<Rightarrow> (if sub_status s = ''canceled'' then None else stripe_subscription_id r))
           else None))"

text \<open>
  The remote mutation: the update of the live subscription (after a second
  \<open>retrieve\<close>), or the creation of a new one
  \<^verbatim>\<open>
  subscription = await stripe.subscriptions.create({
      customer: stripeCustomerId, items: [{ price: priceId }], default_payment_method: paymentMethodId,
      trial_period_days: isTrial ? 30 : undefined, cancel_at_period_end: !isTrial && !autoRenew,
      metadata: { user_id: user.id, plan_type: finalPlanType, is_trial: String(!!isTrial) } });
  \<close>
\<close>

definition create_payment_createParams :: "string \<Rightarrow> string \<Rightarrow> create_payment_request \<Rightarrow> create_params" where
  "create_payment_createParams uid stripeCustomerId req =
     \<lparr> cp_customer = Some stripeCustomerId,
       cp_price = req_priceId req,
       cp_default_payment_method = req_paymentMethodId req,
       cp_trial_period_days = (if req_isTrial req then Some 30 else None),
       cp_trial_end = None,
       cp_cancel_at_period_end = Some (\<not> req_isTrial req \<and> \<not> req_autoRenew req),
       cp_metadata = [(''user_id'', uid), (''plan_type'', finalPlanType req),
                      (''is_trial'', if req_isTrial req then ''true'' else ''false'')] \<rparr>"

definition create_payment_mutation ::
  "stripe_env \<Rightarrow> string \<Rightarrow> create_payment_request \<Rightarrow> subscription_row option \<Rightarrow> string
     \<Rightarrow> string + stripe_subscription" where
  "create_payment_mutation env uid req dbSub stripeCustomerId =
     (case activeStripeSubId_of env dbSub of
        Some activeStripeSubId \<Rightarrow>
          (case subscriptions_retrieve env activeStripeSubId of
             Inl e \<Rightarrow> Inl e
           | Inr currentSub \<Rightarrow>
               subscriptions_update env activeStripeSubId
                 (create_payment_updateParams (the dbSub) currentSub req))
      | None \<Rightarrow> subscriptions_create env (create_payment_createParams uid stripeCustomerId req))"

text \<open>
  \<^verbatim>\<open>
  if (dbSub) { await supabaseAdmin.from('subscriptions').update(subData).eq('id', dbSub.id); }
  else { await supabaseAdmin.from('subscriptions').insert(subData); }
  \<close>
\<close>

definition create_payment_write ::
  "subscription_row option \<Rightarrow> (subscription_row \<Rightarrow> subscription_row) \<Rightarrow> string
     \<Rightarrow> subscriptions_table \<Rightarrow> subscriptions_table" where
  "create_payment_write dbSub vals fresh_id db =
     (case dbSub of
        Some r \<Rightarrow> update_eq_id (row_id r) vals db
      | None \<Rightarrow> db @ [vals (blank_row fresh_id)])"

text \<open>
  The handler body (\<open>Deno.serve\<close> callback of create-payment.ts). The result is the JSON
  response (\<open>Inl message\<close> for the \<open>catch\<close> branch, status 400) and the table afterwards.
  Steps, in the order of the source: authentication, price id, fingerprint check, customer
  setup, attach, create or update of the remote subscription, write of the row.
\<close>

definition create_payment ::
  "stripe_env \<Rightarrow> create_payment_request \<Rightarrow> subscriptions_table
     \<Rightarrow> (string + create_payment_response) \<times> subscriptions_table" where
  "create_payment env req db =
     (case auth_user env of
        None \<Rightarrow> (Inl ''Unauthorized'', db)
      | Some uid \<Rightarrow>
        if \<not> truthy (req_priceId req) then (Inl ''Missing Price ID.'', db)
        else if req_isTrial req \<and> cardFingerprint_of env (req_paymentMethodId req) \<noteq> None \<and>
                duplicates db (the (cardFingerprint_of env (req_paymentMethodId req))) uid \<noteq> []
        then (Inl ''This card has already been used for a trial.'', db)
        else
          (case customer_setup env uid (dbSub_of db uid) of
             Inl e \<Rightarrow> (Inl e, db)
           | Inr stripeCustomerId \<Rightarrow>
             (case (if truthy (req_paymentMethodId req)
                    then attach_payment_method env (the (req_paymentMethodId req)) stripeCustomerId
                    else None) of
                Some e \<Rightarrow> (Inl e, db)
              | None \<Rightarrow>
                (case create_payment_mutation env uid req (dbSub_of db uid) stripeCustomerId of
                   Inl e \<Rightarrow> (Inl e, db)
                 | Inr subscription \<Rightarrow>
                     (Inr \<lparr> resp_clientSecret = sub_client_secret subscription,
                            resp_subscriptionId = sub_id subscription \<rparr>,
                      create_payment_write (dbSub_of db uid)
                        (subData uid (finalPlanType req) subscription stripeCustomerId
                           (cardFingerprint_of env (req_paymentMethodId req)) (now_ms env))
                        (new_row_id env) db)))))"

section \<open>change-plan handler\<close>

record change_plan_request =
  req_newPlanType :: "string option"
  req_newPriceId :: "string option"
  req_cp_paymentMethodId :: "string option"

record change_plan_response =
  resp_success :: bool
  resp_requiresPayment :: bool
  resp_cp_clientSecret :: "string option"
  resp_message :: "string option"

text \<open>\<^verbatim>\<open>{ ...stripeSubscription.metadata, plan_type: newPlanType, is_trial: 'false' }\<close>\<close>

definition set_key :: "string \<Rightarrow> string \<Rightarrow> (string \<times> string) list \<Rightarrow> (string \<times> string) list" where
  "set_key k v m = (if k \<in> fst ` set m then map (\<lambda>(k', v'). if k' = k then (k', v) else (k', v')) m
                    else m @ [(k, v)])"

text \<open>
  \<^verbatim>\<open>const isCurrentlyTrial = currentSub.plan_type === 'trial' || stripeStatus === 'trialing';\<close>
\<close>

definition isCurrentlyTrial :: "subscription_row \<Rightarrow> stripe_subscription \<Rightarrow> bool" where
  "isCurrentlyTrial currentSub stripeSubscription =
     (plan_type currentSub = ''trial'' \<or> sub_status stripeSubscription = ''trialing'')"

text \<open>
  \<^verbatim>\<open>
  const updateParams: any = {
    items: [{ id: stripeSubscription.items.data[0].id, price: newPriceId }],
    metadata: { ...stripeSubscription.metadata, plan_type: newPlanType, is_trial: 'false' } };
  if (isCurrentlyTrial && newPlanType !== 'trial') {
    updateParams.trial_end = 'now';
    updateParams.proration_behavior = 'create_prorations';
    updateParams.billing_cycle_anchor = 'now';
  } else if (hasIntervalChange) {
    updateParams.proration_behavior = 'create_prorations';
    updateParams.billing_cycle_anchor = 'now';
  } else if (isUpgrade) {
    updateParams.proration_behavior = 'create_prorations';
    updateParams.billing_cycle_anchor = 'unchanged';
  } else {
    updateParams.proration_behavior = 'none';
    updateParams.billing_cycle_anchor = 'unchanged';
  }
  \<close>
\<close>

definition updateParams ::
  "subscription_row \<Rightarrow> stripe_subscription \<Rightarrow> string \<Rightarrow> string \<Rightarrow> update_params" where
  "updateParams currentSub stripeSubscription newPlanType newPriceId =
     (let base = \<lparr> up_items = Some (sub_item_id stripeSubscription, newPriceId),
                    up_metadata = Some (set_key ''is_trial'' ''false''
                                    (set_key ''plan_type'' newPlanType (sub_metadata stripeSubscription))),
                    up_trial_end = None, up_proration_behavior = None,
                    up_billing_cycle_anchor = None, up_cancel_at_period_end = None,
                    up_default_payment_method = None \<rparr>
      in if isCurrentlyTrial currentSub stripeSubscription \<and> newPlanType \<noteq> ''trial'' then
           base\<lparr> up_trial_end := Some TrialEndNow,
                 up_proration_behavior := Some ''create_prorations'',
                 up_billing_cycle_anchor := Some ''now'' \<rparr>
         else if hasIntervalChange (plan_type currentSub) newPlanType then
           base\<lparr> up_proration_behavior := Some ''create_prorations'',
                 up_billing_cycle_anchor := Some ''now'' \<rparr>
         else if isUpgrade (plan_type currentSub) newPlanType then
           base\<lparr> up_proration_behavior := Some ''create_prorations'',
                 up_billing_cycle_anchor := Some ''unchanged'' \<rparr>
         else
           base\<lparr> up_proration_behavior := Some ''none'',
                 up_billing_cycle_anchor := Some ''unchanged'' \<rparr>)"

text \<open>
  \<^verbatim>\<open>
  const isDowngrade = newPlanLevel < currentPlanLevel && !hasIntervalChange;
  const dbUpdate: any = {
    status: updatedSubscription.status,
    current_period_start: new Date(updatedSubscription.current_period_start * 1000).toISOString(),
    current_period_end: new Date(updatedSubscription.current_period_end * 1000).toISOString(),
    cancel_at_period_end: false,
    updated_at: new Date().toISOString() };
  if (!isDowngrade) { dbUpdate.plan_type = newPlanType; }
  \<close>
  \<open>currentPlan\<close> is \<open>currentSub.plan_type\<close>. No other key is set: in particular
  \<open>pending_plan_change\<close> is not among the written columns.
\<close>

definition dbUpdate ::
  "string \<Rightarrow> string \<Rightarrow> stripe_subscription \<Rightarrow> int \<Rightarrow> subscription_row \<Rightarrow> subscription_row" where
  "dbUpdate currentPlan newPlanType updatedSubscription now r =
     (let r' = r\<lparr> status := sub_status updatedSubscription,
                   current_period_start := sub_current_period_start updatedSubscription * 1000,
                   current_period_end := sub_current_period_end updatedSubscription * 1000,
                   cancel_at_period_end := False,
                   updated_at := now \<rparr>
      in if \<not> isDowngrade_change_plan currentPlan newPlanType
         then r'\<lparr> plan_type := newPlanType \<rparr> else r')"

text \<open>
  The write of the re-creation branch (\<open>isCanceled && isExpired\<close>):
  \<^verbatim>\<open>
  await supabaseAdmin.from('subscriptions').update({
    plan_type: newPlanType, status: newSubscription.status, stripe_subscription_id: newSubscription.id,
    current_period_start: ..., current_period_end: ..., cancel_at_period_end: false,
    updated_at: new Date().toISOString() }).eq('id', currentSub.id);
  \<close>
\<close>

definition dbRecreate :: "string \<Rightarrow> stripe_subscription \<Rightarrow> int \<Rightarrow> subscription_row \<Rightarrow> subscription_row" where
  "dbRecreate newPlanType newSubscription now r =
     r\<lparr> plan_type := newPlanType,
        status := sub_status newSubscription,
        stripe_subscription_id := Some (sub_id newSubscription),
        current_period_start := sub_current_period_start newSubscription * 1000,
        current_period_end := sub_current_period_end newSubscription * 1000,
        cancel_at_period_end := False,
        updated_at := now \<rparr>"

text \<open>
  The response after the update:
  \<^verbatim>\<open>
  if (isCurrentlyTrial || isUpgrade || hasIntervalChange) {
    const latestInvoice = await stripe.invoices.retrieve(updatedSubscription.latest_invoice as string);
    const clientSecret = (latestInvoice.payment_intent as any)?.client_secret;
    if (clientSecret) { ... return { success: true, requiresPayment: true, clientSecret, message }; }
  }
  return { success: true, requiresPayment: false,
           message: 'Plan change will take effect at the end of your current billing period.' };
  \<close>
  \<open>invoices.retrieve\<close> runs after the row is written; when it throws, the \<open>catch\<close>
  answers with the error.
\<close>

definition change_plan_response_of ::
  "stripe_env \<Rightarrow> subscription_row \<Rightarrow> stripe_subscription \<Rightarrow> string \<Rightarrow> stripe_subscription
     \<Rightarrow> string + change_plan_response" where
  "change_plan_response_of env currentSub stripeSubscription newPlanType updatedSubscription =
     (let trial = isCurrentlyTrial currentSub stripeSubscription;
          up = isUpgrade (plan_type currentSub) newPlanType;
          ivl = hasIntervalChange (plan_type currentSub) newPlanType;
          later = \<lparr> resp_success = True, resp_requiresPayment = False, resp_cp_clientSecret = None,
                    resp_message = Some ''Plan change will take effect at the end of your current billing period.'' \<rparr>
      in if trial \<or> up \<or> ivl then
           (case invoices_retrieve env (sub_latest_invoice updatedSubscription) of
              Inl e \<Rightarrow> Inl e
            | Inr clientSecret \<Rightarrow>
                if truthy clientSecret then
                  Inr \<lparr> resp_success = True, resp_requiresPayment = True,
                        resp_cp_clientSecret = clientSecret,
                        resp_message = Some
                          (if trial then ''Trial converted to paid plan.''
                           else if ivl then ''Billing interval changed. You'' @ [CHR 39] @ ''ll be charged the prorated amount for the new plan.''
                           else if up then ''Plan upgraded. You'' @ [CHR 39] @ ''ll be charged the prorated difference.''
                           else ''Plan changed successfully.'') \<rparr>
                else Inr later)
         else Inr later)"

text \<open>
  The re-creation branch (\<open>isCanceled && isExpired\<close>): a new remote subscription is
  created, the row is written, then the invoice is read for the response.
\<close>

definition change_plan_createParams :: "string \<Rightarrow> string \<Rightarrow> change_plan_request \<Rightarrow> create_params" where
  "change_plan_createParams uid stripeCustomerId req =
     \<lparr> cp_customer = Some stripeCustomerId,
       cp_price = req_newPriceId req,
       cp_default_payment_method = req_cp_paymentMethodId req,
       cp_trial_period_days = None,
       cp_trial_end = None,
       cp_cancel_at_period_end = None,
       cp_metadata = [(''user_id'', uid), (''plan_type'', the (req_newPlanType req)),
                      (''is_trial'', ''false'')] \<rparr>"

definition change_plan_recreate ::
  "stripe_env \<Rightarrow> string \<Rightarrow> change_plan_request \<Rightarrow> subscription_row \<Rightarrow> subscriptions_table
     \<Rightarrow> (string + change_plan_response) \<times> subscriptions_table" where
  "change_plan_recreate env uid req currentSub db =
     (case subscriptions_create env
             (change_plan_createParams uid (the (stripe_customer_id currentSub)) req) of
        Inl e \<Rightarrow> (Inl e, db)
      | Inr newSubscription \<Rightarrow>
          (case invoices_retrieve env (sub_latest_invoice newSubscription) of
             Inl e \<Rightarrow> Inl e
           | Inr clientSecret \<Rightarrow>
               Inr \<lparr> resp_success = True, resp_requiresPayment = True,
                     resp_cp_clientSecret = clientSecret, resp_message = None \<rparr>,
           update_eq_id (row_id currentSub)
             (dbRecreate (the (req_newPlanType req)) newSubscription (now_ms env)) db))"

text \<open>The update branch: the remote update, the write of the row, the response.\<close>

definition change_plan_update ::
  "stripe_env \<Rightarrow> change_plan_request \<Rightarrow> subscription_row \<Rightarrow> stripe_subscription \<Rightarrow> subscriptions_table
     \<Rightarrow> (string + change_plan_response) \<times> subscriptions_table" where
  "change_plan_update env req currentSub stripeSubscription db =
     (case subscriptions_update env (the (stripe_subscription_id currentSub))
             (updateParams currentSub stripeSubscription (the (req_newPlanType req)) (the (req_newPriceId req))) of
        Inl e \<Rightarrow> (Inl e, db)
      | Inr updatedSubscription \<Rightarrow>
          (change_plan_response_of env currentSub stripeSubscription (the (req_newPlanType req))
             updatedSubscription,
           update_eq_id (row_id currentSub)
             (dbUpdate (plan_type currentSub) (the (req_newPlanType req)) updatedSubscription (now_ms env)) db))"

text \<open>
  The handler body (first \<open>Deno.serve\<close> callback of the change-plan source). The subscription
  is assumed to have an item (\<open>items.data[0]\<close>), as every provider subscription has.
  \<^verbatim>\<open>
  const isCanceled = stripeStatus === 'canceled';
  const isExpired = new Date(stripeSubscription.current_period_end * 1000) <= new Date();
  \<close>
\<close>

definition change_plan ::
  "stripe_env \<Rightarrow> change_plan_request \<Rightarrow> subscriptions_table
     \<Rightarrow> (string + change_plan_response) \<times> subscriptions_table" where
  "change_plan env req db =
     (case auth_user env of
        None \<Rightarrow> (Inl ''Unauthorized'', db)
      | Some uid \<Rightarrow>
        if \<not> truthy (req_newPriceId req) \<or> \<not> truthy (req_newPlanType req)
        then (Inl ''Missing required parameters'', db)
        else
          (case maybeSingle (filter (\<lambda>r. user_id r = uid) db) of
             None \<Rightarrow> (Inl ''No subscription found. Please create a new subscription from the upgrade page.'', db)
           | Some currentSub \<Rightarrow>
             if \<not> truthy (stripe_customer_id currentSub) then (Inl ''No Stripe customer found'', db)
             else
               (case (if truthy (req_cp_paymentMethodId req)
                      then attach_payment_method env (the (req_cp_paymentMethodId req))
                             (the (stripe_customer_id currentSub))
                      else None) of
                  Some e \<Rightarrow> (Inl e, db)
                | None \<Rightarrow>
                  if \<not> truthy (stripe_subscription_id currentSub)
                  then (Inl ''No active Stripe subscription found. Please purchase a new plan from the upgrade page.'', db)
                  else
                    (case subscriptions_retrieve env (the (stripe_subscription_id currentSub)) of
                       Inl _ \<Rightarrow> (Inl ''Stripe subscription not found. Please purchase a new plan from the upgrade page.'', db)
                     | Inr stripeSubscription \<Rightarrow>
                       if sub_status stripeSubscription = ''canceled'' \<and>
                          sub_current_period_end stripeSubscription * 1000 \<le> now_ms env
                       then change_plan_recreate env uid req currentSub db
                       else change_plan_update env req currentSub stripeSubscription db))))"

section \<open>cancel-subscription handler\<close>

text \<open>
  \<^verbatim>\<open>
  const { data: currentSub } = await supabaseClient.from('subscriptions').select('*')
      .eq('id', subscriptionId).eq('user_id', user.id).single();
  if (!currentSub) throw new Error('Subscription not found');
  if (!currentSub.stripe_subscription_id) throw new Error('No Stripe subscription found');
  await stripe.subscriptions.update(currentSub.stripe_subscription_id, { cancel_at_period_end: true });
  await supabaseClient.from('subscriptions').update({
    cancel_at_period_end: true, status: 'cancelled', updated_at: new Date().toISOString()
  }).eq('id', subscriptionId);
  \<close>
\<close>

definition no_update_params :: update_params where
  "no_update_params = \<lparr> up_items = None, up_metadata = None, up_trial_end = None,
      up_proration_behavior = None, up_billing_cycle_anchor = None,
      up_cancel_at_period_end = None, up_default_payment_method = None \<rparr>"

definition cancel_subscription ::
  "stripe_env \<Rightarrow> string \<Rightarrow> subscriptions_table \<Rightarrow> (string + bool) \<times> subscriptions_table" where
  "cancel_subscription env subscriptionId db =
     (case auth_user env of
        None \<Rightarrow> (Inl ''Unauthorized'', db)
      | Some uid \<Rightarrow>
        (case maybeSingle (filter (\<lambda>r. row_id r = subscriptionId \<and> user_id r = uid) db) of
           None \<Rightarrow> (Inl ''Subscription not found'', db)
         | Some currentSub \<Rightarrow>
           if \<not> truthy (stripe_subscription_id currentSub) then (Inl ''No Stripe subscription found'', db)
           else
             (case subscriptions_update env (the (stripe_subscription_id currentSub))
                     (no_update_params\<lparr> up_cancel_at_period_end := Some True \<rparr>) of
                Inl e \<Rightarrow> (Inl e, db)
              | Inr _ \<Rightarrow>
                  (Inr True,
                   update_eq_id subscriptionId
                     (\<lambda>r. r\<lparr> cancel_at_period_end := True, status := ''cancelled'',
                              updated_at := now_ms env \<rparr>) db))))"

section \<open>reactivate-subscription handler\<close>

record reactivate_request =
  req_subscriptionId :: string
  req_re_paymentMethodId :: "string option"
  req_re_priceId :: "string option"

text \<open>
  The handler beside the change-plan and preview handlers:
  \<^verbatim>\<open>
  const now = new Date();
  const periodEnd = new Date(currentSub.current_period_end);
  const isExpired = periodEnd <= now;
  if (isExpired) throw new Error('Subscription has expired. ...');
  let stripeStatus = 'unknown';
  try { const s = await stripe.subscriptions.retrieve(currentSub.stripe_subscription_id);
        stripeStatus = s.status;
  } catch { throw new Error('Subscription not found in Stripe. ...'); }
  if (stripeStatus === 'active' || stripeStatus === 'trialing' || stripeStatus === 'canceled') {
    await stripe.subscriptions.update(currentSub.stripe_subscription_id, {
      cancel_at_period_end: false, default_payment_method: paymentMethodId });
    await supabaseClient.from('subscriptions').update({
      status: 'active', cancel_at_period_end: false, updated_at: new Date().toISOString()
    }).eq('id', subscriptionId);
  } else { throw new Error('Cannot reactivate subscription in current state. ...'); }
  \<close>
  \<open>priceId\<close> is read from the request and not used. A row without a remote subscription
  id makes \<open>retrieve\<close> throw, which the \<open>catch\<close> turns into the same error.
\<close>

definition msg_expired :: string where
  "msg_expired = ''Subscription has expired. Please purchase a new plan from the upgrade page.''"

definition msg_not_in_stripe :: string where
  "msg_not_in_stripe = ''Subscription not found in Stripe. Please purchase a new plan from the upgrade page.''"

definition msg_cannot_reactivate :: string where
  "msg_cannot_reactivate = ''Cannot reactivate subscription in current state. Please purchase a new plan from the upgrade page.''"

definition reactivate_subscription ::
  "stripe_env \<Rightarrow> reactivate_request \<Rightarrow> subscriptions_table \<Rightarrow> (string + bool) \<times> subscriptions_table" where
  "reactivate_subscription env req db =
     (case auth_user env of
        None \<Rightarrow> (Inl ''Unauthorized'', db)
      | Some uid \<Rightarrow>
        (case maybeSingle (filter (\<lambda>r. row_id r = req_subscriptionId req \<and> user_id r = uid) db) of
           None \<Rightarrow> (Inl ''Subscription not found'', db)
         | Some currentSub \<Rightarrow>
           if current_period_end currentSub \<le> now_ms env then (Inl msg_expired, db)
           else
             (case (case stripe_subscription_id currentSub of
                      None \<Rightarrow> Inl []
                    | Some sid \<Rightarrow> subscriptions_retrieve env sid) of
                Inl _ \<Rightarrow> (Inl msg_not_in_stripe, db)
              | Inr s \<Rightarrow>
                let stripeStatus = sub_status s in
                if stripeStatus = ''active'' \<or> stripeStatus = ''trialing'' \<or> stripeStatus = ''canceled'' then
                  (case subscriptions_update env (the (stripe_subscription_id currentSub))
                          (no_update_params\<lparr> up_cancel_at_period_end := Some False,
                                             up_default_payment_method := req_re_paymentMethodId req \<rparr>) of
                     Inl e \<Rightarrow> (Inl e, db)
                   | Inr _ \<Rightarrow>
                       (Inr True,
                        update_eq_id (req_subscriptionId req)
                          (\<lambda>r. r\<lparr> status := ''active'', cancel_at_period_end := False,
                                   updated_at := now_ms env \<rparr>) db))
                else (Inl msg_cannot_reactivate, db))))"

text \<open>
  The repository holds a second reactivate-subscription handler (after the starter-pack
  service), which treats a fully canceled remote subscription apart:
  \<^verbatim>\<open>
  if (isExpired) throw ...;
  if (!currentSub.stripe_subscription_id) throw new Error('No Stripe subscription found. ...');
  ... retrieve, catch: throw new Error('Subscription not found in Stripe. ...') ...
  if (stripeStatus === 'active' || stripeStatus === 'trialing') {
    ... update and write as above ...
  } else if (stripeStatus === 'canceled') {
    const remainingSeconds = Math.floor((periodEnd.getTime() - now.getTime()) / 1000);
    const trialEnd = remainingSeconds > 0 ? Math.floor(periodEnd.getTime() / 1000) : undefined;
    const newSubscription = await stripe.subscriptions.create({
      customer: currentSub.stripe_customer_id, items: [{ price: priceId }],
      default_payment_method: paymentMethodId, trial_end: trialEnd,
      metadata: { user_id: user.id, plan_type: currentSub.plan_type,
                  is_trial: String(currentSub.plan_type === 'trial') } });
    await supabaseClient.from('subscriptions').update({
      status: 'active', stripe_subscription_id: newSubscription.id, cancel_at_period_end: false,
      current_period_start: ..., current_period_end: ..., updated_at: new Date().toISOString()
    }).eq('id', subscriptionId);
  } else { throw new Error('Cannot reactivate subscription in current state. ...'); }
  \<close>
\<close>

definition reactivate_subscription_recreating ::
  "stripe_env \<Rightarrow> reactivate_request \<Rightarrow> subscriptions_table \<Rightarrow> (string + bool) \<times> subscriptions_table" where
  "reactivate_subscription_recreating env req db =
     (case auth_user env of
        None \<Rightarrow> (Inl ''Unauthorized'', db)
      | Some uid \<Rightarrow>
        (case maybeSingle (filter (\<lambda>r. row_id r = req_subscriptionId req \<and> user_id r = uid) db) of
           None \<Rightarrow> (Inl ''Subscription not found'', db)
         | Some currentSub \<Rightarrow>
           if current_period_end currentSub \<le> now_ms env then (Inl msg_expired, db)
           else if \<not> truthy (stripe_subscription_id currentSub)
           then (Inl ''No Stripe subscription found. Please purchase a new plan from the upgrade page.'', db)
           else
             (case subscriptions_retrieve env (the (stripe_subscription_id currentSub)) of
                Inl _ \<Rightarrow> (Inl msg_not_in_stripe, db)
              | Inr s \<Rightarrow>
                let stripeStatus = sub_status s in
                if stripeStatus = ''active'' \<or> stripeStatus = ''trialing'' then
                  (case subscriptions_update env (the (stripe_subscription_id currentSub))
                          (no_update_params\<lparr> up_cancel_at_period_end := Some False,
                                             up_default_payment_method := req_re_paymentMethodId req \<rparr>) of
                     Inl e \<Rightarrow> (Inl e, db)
                   | Inr _ \<Rightarrow>
                       (Inr True,
                        update_eq_id (req_subscriptionId req)
                          (\<lambda>r. r\<lparr> status := ''active'', cancel_at_period_end := False,
                                   updated_at := now_ms env \<rparr>) db))
                else if stripeStatus = ''canceled'' then
                  let remainingSeconds = (current_period_end currentSub - now_ms env) div 1000;
                      trialEnd = (if remainingSeconds > 0 then Some (current_period_end currentSub div 1000)
                                  else None)
                  in
                  (case subscriptions_create env
                          \<lparr> cp_customer = stripe_customer_id currentSub,
                            cp_price = req_re_priceId req,
                            cp_default_payment_method = req_re_paymentMethodId req,
                            cp_trial_period_days = None,
                            cp_trial_end = trialEnd,
                            cp_cancel_at_period_end = None,
                            cp_metadata = [(''user_id'', uid), (''plan_type'', plan_type currentSub),
                               (''is_trial'', if plan_type currentSub = ''trial'' then ''true'' else ''false'')] \<rparr> of
                     Inl e \<Rightarrow> (Inl e, db)
                   | Inr newSubscription \<Rightarrow>
                       (Inr True,
                        update_eq_id (req_subscriptionId req)
                          (\<lambda>r. r\<lparr> status := ''active'',
                                   stripe_subscription_id := Some (sub_id newSubscription),
                                   cancel_at_period_end := False,
                                   current_period_start := sub_current_period_start newSubscription * 1000,
                                   current_period_end := sub_current_period_end newSubscription * 1000,
                                   updated_at := now_ms env \<rparr>) db))
                else (Inl msg_cannot_reactivate, db))))"

section \<open>Webhook handler: subscription events\<close>

text \<open>
  The arguments of \<^verbatim>\<open>supabase.rpc('handle_subscription_webhook', {...})\<close>. The database function
  itself is not part of the sources; the handlers below take it as the parameter \<open>rpc\<close>
  (\<open>Inl message\<close> when it reports an error).
\<close>

record rpc_args =
  p_user_id :: string
  p_plan_type :: string
  p_status :: string
  p_stripe_subscription_id :: "string option"
  p_stripe_customer_id :: string
  p_period_start :: int
  p_period_end :: int

record webhook_result =
  wr_success :: bool
  wr_action :: string
  wr_userId :: "string option"
  wr_planType :: "string option"
  wr_billingPeriodAccurate :: "bool option"
  wr_actualDuration :: "int option"
  wr_error :: "string option"

definition webhook_noop :: "string \<Rightarrow> webhook_result" where
  "webhook_noop action = \<lparr> wr_success = True, wr_action = action, wr_userId = None, wr_planType = None,
      wr_billingPeriodAccurate = None, wr_actualDuration = None, wr_error = None \<rparr>"

definition webhook_failed :: "string \<Rightarrow> string \<Rightarrow> webhook_result" where
  "webhook_failed action e = \<lparr> wr_success = False, wr_action = action, wr_userId = None, wr_planType = None,
      wr_billingPeriodAccurate = None, wr_actualDuration = None, wr_error = Some e \<rparr>"

definition webhook_done :: "string \<Rightarrow> string \<Rightarrow> string \<Rightarrow> period_calculation \<Rightarrow> webhook_result" where
  "webhook_done action userId planType pc = \<lparr> wr_success = True, wr_action = action,
      wr_userId = Some userId, wr_planType = Some planType,
      wr_billingPeriodAccurate = Some (pc_isAccurate pc), wr_actualDuration = Some (pc_durationDays pc),
      wr_error = None \<rparr>"

text \<open>
  The \<open>switch\<close> of \<open>handleSubscriptionUpdated\<close>:
  \<^verbatim>\<open>
  switch(subscription.status){
    case 'active': case 'trialing': status = 'active'; break;
    case 'past_due': status = 'past_due'; break;
    case 'canceled': case 'cancelled': status = 'canceled'; break;
    case 'unpaid': case 'incomplete': case 'incomplete_expired': status = subscription.status; break;
    default: status = 'active';
  }
  \<close>
\<close>

definition local_status :: "string \<Rightarrow> string" where
  "local_status s =
     (if s = ''active'' \<or> s = ''trialing'' then ''active''
      else if s = ''past_due'' then ''past_due''
      else if s = ''canceled'' \<or> s = ''cancelled'' then ''canceled''
      else if s = ''unpaid'' \<or> s = ''incomplete'' \<or> s = ''incomplete_expired'' then s
      else ''active'')"

text \<open>\<^verbatim>\<open>subscription.metadata?.user_id\<close> and \<^verbatim>\<open>subscription.metadata.plan_type || 'monthly'\<close>.\<close>

definition metadata_user_id :: "stripe_subscription \<Rightarrow> string option" where
  "metadata_user_id s = map_of (sub_metadata s) ''user_id''"

definition metadata_plan_type :: "stripe_subscription \<Rightarrow> string" where
  "metadata_plan_type s =
     (if truthy (map_of (sub_metadata s) ''plan_type'') then the (map_of (sub_metadata s) ''plan_type'')
      else ''monthly'')"

text \<open>
  \<open>handleSubscriptionUpdated\<close> and \<open>handleSubscriptionDeleted\<close>: without a user id in the
  metadata the event is acknowledged and nothing is written; otherwise the period is taken
  from the remote object and the database function is called with the mapped status
  (\<open>'canceled'\<close> for a deletion).
\<close>

definition subscription_rpc_args :: "stripe_subscription \<Rightarrow> string \<Rightarrow> string \<Rightarrow> rpc_args" where
  "subscription_rpc_args subscription userId st =
     (let planType = metadata_plan_type subscription;
          periodCalculation = calculatePeriodFromStripe subscription planType
      in \<lparr> p_user_id = userId, p_plan_type = planType, p_status = st,
           p_stripe_subscription_id = Some (sub_id subscription),
           p_stripe_customer_id = sub_customer subscription,
           p_period_start = pc_start periodCalculation,
           p_period_end = pc_end periodCalculation \<rparr>)"

definition handleSubscriptionUpdated ::
  "(rpc_args \<Rightarrow> 'db \<Rightarrow> string + 'db) \<Rightarrow> stripe_subscription \<Rightarrow> 'db \<Rightarrow> webhook_result \<times> 'db" where
  "handleSubscriptionUpdated rpc subscription db =
     (if \<not> truthy (metadata_user_id subscription)
      then (webhook_noop ''subscription_updated_no_user_metadata'', db)
      else
        let userId = the (metadata_user_id subscription);
            planType = metadata_plan_type subscription
        in (case rpc (subscription_rpc_args subscription userId (local_status (sub_status subscription))) db of
              Inl e \<Rightarrow> (webhook_failed ''subscription_updated'' e, db)
            | Inr db' \<Rightarrow>
                (webhook_done ''subscription_updated'' userId planType
                   (calculatePeriodFromStripe subscription planType), db')))"

definition handleSubscriptionDeleted ::
  "(rpc_args \<Rightarrow> 'db \<Rightarrow> string + 'db) \<Rightarrow> stripe_subscription \<Rightarrow> 'db \<Rightarrow> webhook_result \<times> 'db" where
  "handleSubscriptionDeleted rpc subscription db =
     (if \<not> truthy (metadata_user_id subscription)
      then (webhook_noop ''subscription_deleted_no_user_metadata'', db)
      else
        let userId = the (metadata_user_id subscription);
            planType = metadata_plan_type subscription
        in (case rpc (subscription_rpc_args subscription userId ''canceled'') db of
              Inl e \<Rightarrow> (webhook_failed ''subscription_deleted'' e, db)
            | Inr db' \<Rightarrow>
                (webhook_done ''subscription_deleted'' userId planType
                   (calculatePeriodFromStripe subscription planType), db')))"

section \<open>Invoice persister (webhook handler)\<close>






definition or_str :: "string option \<Rightarrow> string \<Rightarrow> string" where
  "or_str a b = (if truthy a then the a else b)"













section \<open>Plan display (billing page)\<close>

text \<open>
  \<^verbatim>\<open>
  const getPlanDisplayName = (planType: string, status: string) => {
    if (planType === 'trial') { return status === 'canceled' ? 'Trial (Cancelled)' : 'Trial'; }
    const planNames: Record<string, string> = {
      'monthly': 'Monthly Plan', 'semiannual': '6-Month Plan', 'annual': 'Annual Plan' };
    const baseName = planNames[planType] || 'Standard Plan';
    return status === 'canceled' ? `${baseName} (Cancelled)` : baseName;
  };
  \<close>
\<close>

definition planNames :: "(string \<times> string) list" where
  "planNames = [(''monthly'', ''Monthly Plan''), (''semiannual'', ''6-Month Plan''), (''annual'', ''Annual Plan'')]"

definition getPlanDisplayName :: "string \<Rightarrow> string \<Rightarrow> string" where
  "getPlanDisplayName planType st =
     (if planType = ''trial'' then (if st = ''canceled'' then ''Trial (Cancelled)'' else ''Trial'')
      else
        let baseName = or_str (map_of planNames planType) ''Standard Plan''
        in if st = ''canceled'' then baseName @ '' (Cancelled)'' else baseName)"

section \<open>Concrete inputs\<close>

text \<open>
  A subscriptions row of user \<open>user-1\<close> on the annual plan, the remote subscription it
  mirrors, an invoice payload, and a provider in which every call succeeds. The theorems
  below evaluate the handlers on them.
\<close>

definition ex_sub_row :: subscription_row where
  "ex_sub_row = \<lparr> row_id = ''row-1'', user_id = ''user-1'', plan_type = ''annual'', status = ''active'',
      stripe_subscription_id = Some ''sub_A'', stripe_customer_id = Some ''cus_A'',
      current_period_start = 1700000000000, current_period_end = 1731536000000,
      cancel_at_period_end = False, card_fingerprint = Some ''fp_A'',
      pending_plan_change = None, updated_at = 1700000000000 \<rparr>"

definition ex_remote_sub :: stripe_subscription where
  "ex_remote_sub = \<lparr> sub_id = ''sub_A'', sub_status = ''active'', sub_customer = ''cus_A'',
      sub_current_period_start = 1700000000, sub_current_period_end = 1731536000,
      sub_cancel_at_period_end = False, sub_item_id = ''si_1'',
      sub_metadata = [(''user_id'', ''user-1''), (''plan_type'', ''annual'')],
      sub_latest_invoice = ''in_0001'', sub_client_secret = Some ''pi_secret'' \<rparr>"

definition ex_new_sub :: stripe_subscription where
  "ex_new_sub = \<lparr> sub_id = ''sub_B'', sub_status = ''trialing'', sub_customer = ''cus_A'',
      sub_current_period_start = 1710000000, sub_current_period_end = 1731536000,
      sub_cancel_at_period_end = False, sub_item_id = ''si_2'',
      sub_metadata = [(''user_id'', ''user-1''), (''plan_type'', ''annual'')],
      sub_latest_invoice = ''in_0002'', sub_client_secret = None \<rparr>"

definition ex_env :: stripe_env where
  "ex_env = \<lparr> auth_user = Some ''user-1'', now_ms = 1710000000000, new_row_id = ''row-2'',
      paymentMethods_retrieve = (\<lambda>_. Inr (Some ''fp_A'')),
      paymentMethods_attach = (\<lambda>_ _. None),
      customers_update = (\<lambda>_ _. None),
      customers_create = (\<lambda>_. Inr ''cus_B''),
      subscriptions_retrieve = (\<lambda>_. Inr ex_remote_sub),
      subscriptions_update = (\<lambda>_ _. Inr ex_remote_sub),
      subscriptions_create = (\<lambda>_. Inr ex_new_sub),
      invoices_retrieve = (\<lambda>_. Inr (Some ''pi_secret'')) \<rparr>"


text \<open>The same provider, declining every subscription mutation.\<close>

definition ex_env_declined :: stripe_env where
  "ex_env_declined = ex_env\<lparr> subscriptions_update := (\<lambda>_ _. Inl ''Your card was declined.''),
                               subscriptions_create := (\<lambda>_. Inl ''Your card was declined.'') \<rparr>"

definition ex_change_req :: change_plan_request where
  "ex_change_req = \<lparr> req_newPlanType = Some ''monthly'', req_newPriceId = Some ''price_monthly'',
                      req_cp_paymentMethodId = None \<rparr>"

definition ex_reactivate_req :: reactivate_request where
  "ex_reactivate_req = \<lparr> req_subscriptionId = ''row-1'', req_re_paymentMethodId = Some ''pm_1'',
                          req_re_priceId = Some ''price_annual'' \<rparr>"

text \<open>A trial request of a second user, whose card has the fingerprint of the first user's row.\<close>

definition ex_trial_req :: create_payment_request where
  "ex_trial_req = \<lparr> req_planType = ''monthly'', req_autoRenew = True, req_paymentMethodId = Some ''pm_1'',
                     req_priceId = Some ''price_monthly'', req_isTrial = True \<rparr>"

definition ex_env_user2 :: stripe_env where
  "ex_env_user2 = ex_env\<lparr> auth_user := Some ''user-2'' \<rparr>"

text \<open>A downgrade from the annual plan that changes no interval: the target is \<open>trial\<close>.\<close>

definition ex_downgrade_req :: change_plan_request where
  "ex_downgrade_req = \<lparr> req_newPlanType = Some ''trial'', req_newPriceId = Some ''price_trial'',
                         req_cp_paymentMethodId = None \<rparr>"

text \<open>
  The remote subscription is fully canceled; a creation is accepted when its \<open>trial_end\<close>
  is the period end of the row in seconds.
\<close>

definition ex_env_canceled :: stripe_env where
  "ex_env_canceled = ex_env\<lparr>
      subscriptions_retrieve := (\<lambda>_. Inr (ex_remote_sub\<lparr> sub_status := ''canceled'' \<rparr>)),
      subscriptions_update := (\<lambda>_ _. Inr (ex_remote_sub\<lparr> sub_status := ''canceled'' \<rparr>)),
      subscriptions_create := (\<lambda>p. if cp_trial_end p = Some 1731536000 then Inr ex_new_sub
                                     else Inl ''unexpected trial_end'') \<rparr>"





section \<open>Theorems\<close>

subsection \<open>Shared lemmas: what the handlers write\<close>

lemma planLevel_simps:
  "planLevel ''trial'' = 0" "planLevel ''monthly'' = 1"
  "planLevel ''semiannual'' = 2" "planLevel ''annual'' = 3"
  by (simp_all add: planLevel_def PLAN_HIERARCHY_def)

lemma map_update_eq_id:
  "(\<And>r. f (vals r) = f r) \<Longrightarrow> map f (update_eq_id i vals db) = map f db"
  by (simp add: update_eq_id_def)


lemma create_payment_shape:
  "(case create_payment env req db of (Inl e, db') \<Rightarrow> db' = db | (Inr r, db') \<Rightarrow> True)"
  by (simp add: create_payment_def split: option.split sum.split if_split)

lemma create_payment_error_no_write:
  "fst (create_payment env req db) = Inl e \<Longrightarrow> snd (create_payment env req db) = db"
  using create_payment_shape [where env = env and req = req and db = db]
  by (cases "create_payment env req db") (simp split: sum.splits)

lemma cancel_subscription_shape:
  "(case cancel_subscription env sid db of (Inl e, db') \<Rightarrow> db' = db | (Inr r, db') \<Rightarrow> True)"
  by (simp add: cancel_subscription_def Let_def split: option.split sum.split if_split)

lemma cancel_subscription_error_no_write:
  "fst (cancel_subscription env sid db) = Inl e \<Longrightarrow> snd (cancel_subscription env sid db) = db"
  using cancel_subscription_shape [where env = env and sid = sid and db = db]
  by (cases "cancel_subscription env sid db") (simp split: sum.splits)

lemma reactivate_subscription_shape:
  "(case reactivate_subscription env req db of (Inl e, db') \<Rightarrow> db' = db | (Inr r, db') \<Rightarrow> True)"
  by (simp add: reactivate_subscription_def Let_def split: option.split sum.split if_split)

lemma reactivate_subscription_error_no_write:
  "fst (reactivate_subscription env req db) = Inl e \<Longrightarrow> snd (reactivate_subscription env req db) = db"
  using reactivate_subscription_shape [where env = env and req = req and db = db]
  by (cases "reactivate_subscription env req db") (simp split: sum.splits)

lemma reactivate_subscription_recreating_shape:
  "(case reactivate_subscription_recreating env req db of (Inl e, db') \<Rightarrow> db' = db | (Inr r, db') \<Rightarrow> True)"
  by (simp add: reactivate_subscription_recreating_def Let_def split: option.split sum.split if_split)

lemma reactivate_subscription_recreating_error_no_write:
  "fst (reactivate_subscription_recreating env req db) = Inl e \<Longrightarrow>
   snd (reactivate_subscription_recreating env req db) = db"
  using reactivate_subscription_recreating_shape [where env = env and req = req and db = db]
  by (cases "reactivate_subscription_recreating env req db") (simp split: sum.splits)

text \<open>
  Change-plan answers with an error after its write only when the mutation has succeeded
  and reading the invoice for the response throws.
\<close>

lemma change_plan_update_shape:
  "(case change_plan_update env req cur ss db of
      (Inl e, db') \<Rightarrow> db' = db \<or>
         (\<exists>s i p. subscriptions_update env i p = Inr s \<and> invoices_retrieve env (sub_latest_invoice s) = Inl e)
    | (Inr r, db') \<Rightarrow> True)"
proof (cases "subscriptions_update env (the (stripe_subscription_id cur))
             (updateParams cur ss (the (req_newPlanType req)) (the (req_newPriceId req)))")
  case (Inl e)
  then show ?thesis by (simp add: change_plan_update_def)
next
  case (Inr s)
  show ?thesis
  proof (cases "change_plan_response_of env cur ss (the (req_newPlanType req)) s")
    case (Inl e)
    then have "invoices_retrieve env (sub_latest_invoice s) = Inl e"
      by (simp add: change_plan_response_of_def Let_def split: if_splits sum.splits)
    with Inr have "\<exists>s i p. subscriptions_update env i p = Inr s \<and>
        invoices_retrieve env (sub_latest_invoice s) = Inl e"
      by blast
    with Inr Inl show ?thesis by (simp add: change_plan_update_def)
  next
    case (Inr r)
    with \<open>subscriptions_update env _ _ = Inr s\<close> show ?thesis by (simp add: change_plan_update_def)
  qed
qed

lemma change_plan_recreate_shape:
  "(case change_plan_recreate env uid req cur db of
      (Inl e, db') \<Rightarrow> db' = db \<or>
         (\<exists>s p. subscriptions_create env p = Inr s \<and> invoices_retrieve env (sub_latest_invoice s) = Inl e)
    | (Inr r, db') \<Rightarrow> True)"
  by (auto simp: change_plan_recreate_def split: sum.split)

lemma change_plan_shape:
  "(case change_plan env req db of
      (Inl e, db') \<Rightarrow> db' = db \<or>
         (\<exists>s. ((\<exists>i p. subscriptions_update env i p = Inr s) \<or> (\<exists>p. subscriptions_create env p = Inr s)) \<and>
              invoices_retrieve env (sub_latest_invoice s) = Inl e)
    | (Inr r, db') \<Rightarrow> True)"
proof -
  have u: "(case change_plan_update env req cur ss db of
      (Inl e, db') \<Rightarrow> db' = db \<or>
         (\<exists>s. ((\<exists>i p. subscriptions_update env i p = Inr s) \<or> (\<exists>p. subscriptions_create env p = Inr s)) \<and>
              invoices_retrieve env (sub_latest_invoice s) = Inl e)
    | (Inr r, db') \<Rightarrow> True)" for cur ss
    using change_plan_update_shape [where env = env and req = req and cur = cur and ss = ss and db = db]
    by (cases "change_plan_update env req cur ss db") (auto split: sum.splits)
  have c: "(case change_plan_recreate env uid req cur db of
      (Inl e, db') \<Rightarrow> db' = db \<or>
         (\<exists>s. ((\<exists>i p. subscriptions_update env i p = Inr s) \<or> (\<exists>p. subscriptions_create env p = Inr s)) \<and>
              invoices_retrieve env (sub_latest_invoice s) = Inl e)
    | (Inr r, db') \<Rightarrow> True)" for uid cur
    using change_plan_recreate_shape [where env = env and uid = uid and req = req and cur = cur and db = db]
    by (cases "change_plan_recreate env uid req cur db") (auto split: sum.splits)
  show ?thesis
    unfolding change_plan_def
    by (simp add: u c split: option.split sum.split if_split)
qed

lemma change_plan_update_fails:
  "\<forall>i p. isl (subscriptions_update env i p) \<Longrightarrow>
   isl (fst (change_plan_update env req cur ss db)) \<and> snd (change_plan_update env req cur ss db) = db"
proof -
  assume a: "\<forall>i p. isl (subscriptions_update env i p)"
  obtain e where "subscriptions_update env (the (stripe_subscription_id cur))
             (updateParams cur ss (the (req_newPlanType req)) (the (req_newPriceId req))) = Inl e"
    using a by (auto simp: isl_def)
  then show ?thesis by (simp add: change_plan_update_def)
qed

lemma change_plan_recreate_fails:
  "\<forall>p. isl (subscriptions_create env p) \<Longrightarrow>
   isl (fst (change_plan_recreate env uid req cur db)) \<and> snd (change_plan_recreate env uid req cur db) = db"
proof -
  assume a: "\<forall>p. isl (subscriptions_create env p)"
  obtain e where "subscriptions_create env
             (change_plan_createParams uid (the (stripe_customer_id cur)) req) = Inl e"
    using a by (auto simp: isl_def)
  then show ?thesis by (simp add: change_plan_recreate_def)
qed

lemma change_plan_fails:
  assumes "\<forall>i p. isl (subscriptions_update env i p)" and "\<forall>p. isl (subscriptions_create env p)"
  shows "isl (fst (change_plan env req db)) \<and> snd (change_plan env req db) = db"
  unfolding change_plan_def
  by (simp add: change_plan_update_fails [OF assms(1)] change_plan_recreate_fails [OF assms(2)]
        split: option.split sum.split if_split)

lemma isl_not_Inr: "isl x \<Longrightarrow> x \<noteq> Inr y"
  by (cases x) simp_all

lemma create_payment_fails:
  assumes "\<forall>i p. isl (subscriptions_update env i p)" and "\<forall>p. isl (subscriptions_create env p)"
  shows "isl (fst (create_payment env req db)) \<and> snd (create_payment env req db) = db"
proof -
  have "isl (create_payment_mutation env uid req dbSub c)" for uid dbSub c
    using assms by (simp add: create_payment_mutation_def split: option.split sum.split)
  then have "create_payment_mutation env uid req dbSub c \<noteq> Inr s" for uid dbSub c s
    by (rule isl_not_Inr)
  then show ?thesis
    unfolding create_payment_def
    by (simp split: option.split sum.split if_split)
qed

lemma cancel_subscription_fails:
  assumes "\<forall>i p. isl (subscriptions_update env i p)"
  shows "isl (fst (cancel_subscription env sid db)) \<and> snd (cancel_subscription env sid db) = db"
proof -
  have "subscriptions_update env i p \<noteq> Inr s" for i p s
    using assms by (simp add: isl_not_Inr)
  then show ?thesis
    unfolding cancel_subscription_def
    by (simp split: option.split sum.split if_split)
qed

lemma reactivate_subscription_fails:
  assumes "\<forall>i p. isl (subscriptions_update env i p)"
  shows "isl (fst (reactivate_subscription env req db)) \<and> snd (reactivate_subscription env req db) = db"
proof -
  have "subscriptions_update env i p \<noteq> Inr s" for i p s
    using assms by (simp add: isl_not_Inr)
  then show ?thesis
    unfolding reactivate_subscription_def Let_def
    by (simp split: option.split sum.split if_split)
qed

lemma reactivate_subscription_recreating_fails:
  assumes "\<forall>i p. isl (subscriptions_update env i p)" and "\<forall>p. isl (subscriptions_create env p)"
  shows "isl (fst (reactivate_subscription_recreating env req db)) \<and>
         snd (reactivate_subscription_recreating env req db) = db"
proof -
  have u: "subscriptions_update env i p \<noteq> Inr s" for i p s
    using assms by (simp add: isl_not_Inr)
  have c: "subscriptions_create env p \<noteq> Inr s" for p s
    using assms by (simp add: isl_not_Inr)
  show ?thesis
    unfolding reactivate_subscription_recreating_def Let_def
    by (simp add: u c split: option.split sum.split if_split)
qed

lemma update_eq_id_written:
  "r \<in> set (update_eq_id i vals db) \<Longrightarrow> row_id r = i \<Longrightarrow> \<exists>x \<in> set db. r = vals x"
  unfolding update_eq_id_def by (auto split: if_splits)

lemma update_eq_id_status:
  assumes "\<And>x. status (vals x) = st"
  shows "\<forall>r \<in> set (update_eq_id i vals db). row_id r = i \<longrightarrow> status r = st"
  using assms update_eq_id_written by metis

text \<open>The two reactivate handlers on the canceled remote subscription.\<close>

lemma ex_canceled_facts:
  "row_id ex_sub_row = ''row-1''" "user_id ex_sub_row = ''user-1''"
  "stripe_customer_id ex_sub_row = Some ''cus_A''" "stripe_subscription_id ex_sub_row = Some ''sub_A''"
  "current_period_end ex_sub_row = 1731536000000" "plan_type ex_sub_row = ''annual''"
  "auth_user ex_env_canceled = Some ''user-1''"
  "subscriptions_retrieve ex_env_canceled i = Inr (ex_remote_sub\<lparr> sub_status := ''canceled'' \<rparr>)"
  "subscriptions_update ex_env_canceled i p = Inr (ex_remote_sub\<lparr> sub_status := ''canceled'' \<rparr>)"
  "now_ms ex_env_canceled = 1710000000000"
  "subscriptions_create ex_env_canceled q =
      (if cp_trial_end q = Some 1731536000 then Inr ex_new_sub else Inl ''unexpected trial_end'')"
  "req_subscriptionId ex_reactivate_req = ''row-1''"
  by (simp_all add: ex_sub_row_def ex_env_canceled_def ex_env_def ex_reactivate_req_def)

lemma ex_reactivate_canceled:
  "reactivate_subscription ex_env_canceled ex_reactivate_req [ex_sub_row] =
     (Inr True, [ex_sub_row\<lparr> status := ''active'', cancel_at_period_end := False,
                              updated_at := 1710000000000 \<rparr>])"
  by (simp add: reactivate_subscription_def Let_def update_eq_id_def ex_canceled_facts)

lemma ex_reactivate_recreating_canceled:
  "reactivate_subscription_recreating ex_env_canceled ex_reactivate_req [ex_sub_row] =
     (Inr True, [ex_sub_row\<lparr> status := ''active'', stripe_subscription_id := Some ''sub_B'',
                              cancel_at_period_end := False,
                              current_period_start := 1710000000000,
                              current_period_end := 1731536000000,
                              updated_at := 1710000000000 \<rparr>])"
proof -
  have n: "sub_id ex_new_sub = ''sub_B''" "sub_current_period_start ex_new_sub = 1710000000"
    "sub_current_period_end ex_new_sub = 1731536000"
    by (simp_all add: ex_new_sub_def)
  show ?thesis
    by (simp add: reactivate_subscription_recreating_def Let_def update_eq_id_def ex_canceled_facts n)
qed


subsection \<open>Plan hierarchy and period calculator\<close>

lemma hasIntervalChange_iff:
  "hasIntervalChange cur tgt =
     (((cur = ''monthly'') \<noteq> (tgt = ''monthly'')) \<or> {cur, tgt} = {''semiannual'', ''annual''})"
  unfolding hasIntervalChange_def doubleton_eq_iff by auto

lemma planLevel_inj:
  "cur \<in> set plan_types \<Longrightarrow> tgt \<in> set plan_types \<Longrightarrow> cur \<noteq> tgt \<Longrightarrow> planLevel cur \<noteq> planLevel tgt"
  unfolding plan_types_def by (auto simp: planLevel_simps)

text \<open>
  Claim C7. Over the rank order trial(0) < monthly(1) < semiannual(2) < annual(3), for
  every pair of plan types: an upgrade is never a downgrade, every pair is an upgrade, a
  downgrade or lateral (equal rank), and a pair of different plan types is never lateral;
  \<open>hasIntervalChange\<close> holds exactly when exactly one of the two plans is monthly or the
  unordered pair is {semiannual, annual}.
\<close>

theorem plan_hierarchy_classification:
  "map planLevel plan_types = [0, 1, 2, 3] \<and>
   (\<forall>cur \<in> set plan_types. \<forall>tgt \<in> set plan_types.
      \<not> (isUpgrade cur tgt \<and> isDowngrade cur tgt) \<and>
      (isUpgrade cur tgt \<or> isDowngrade cur tgt \<or> planLevel cur = planLevel tgt) \<and>
      (cur \<noteq> tgt \<longrightarrow> planLevel cur \<noteq> planLevel tgt) \<and>
      (hasIntervalChange cur tgt =
         (((cur = ''monthly'') \<noteq> (tgt = ''monthly'')) \<or> {cur, tgt} = {''semiannual'', ''annual''})))"
proof (intro conjI ballI impI)
  show "map planLevel plan_types = [0, 1, 2, 3]"
    by (simp add: plan_types_def planLevel_simps)
next
  fix cur tgt
  show "\<not> (isUpgrade cur tgt \<and> isDowngrade cur tgt)"
    by (simp add: isUpgrade_def isDowngrade_def)
  show "isUpgrade cur tgt \<or> isDowngrade cur tgt \<or> planLevel cur = planLevel tgt"
    unfolding isUpgrade_def isDowngrade_def by linarith
  show "hasIntervalChange cur tgt =
         (((cur = ''monthly'') \<noteq> (tgt = ''monthly'')) \<or> {cur, tgt} = {''semiannual'', ''annual''})"
    by (rule hasIntervalChange_iff)
next
  fix cur tgt
  assume "cur \<in> set plan_types" "tgt \<in> set plan_types" "cur \<noteq> tgt"
  then show "planLevel cur \<noteq> planLevel tgt" by (rule planLevel_inj)
qed

theorem plan_hierarchy_classification_witness:
  "isUpgrade ''monthly'' ''annual'' \<and> \<not> isDowngrade ''monthly'' ''annual'' \<and>
   hasIntervalChange ''monthly'' ''annual'' \<and> planLevel ''monthly'' \<noteq> planLevel ''annual''"
proof -
  have m: "''monthly'' \<in> set plan_types" and a: "''annual'' \<in> set plan_types"
    by (simp_all add: plan_types_def)
  note h = plan_hierarchy_classification [THEN conjunct2, THEN bspec, OF m, THEN bspec, OF a]
  have up: "isUpgrade ''monthly'' ''annual''"
    by (simp add: isUpgrade_def planLevel_simps)
  have nd: "\<not> isDowngrade ''monthly'' ''annual''"
    using h [THEN conjunct1] up by simp
  have ne: "planLevel ''monthly'' \<noteq> planLevel ''annual''"
    using h [THEN conjunct2, THEN conjunct2, THEN conjunct1] by simp
  have ic: "hasIntervalChange ''monthly'' ''annual''"
    using h [THEN conjunct2, THEN conjunct2, THEN conjunct2] by simp
  from up nd ne ic show ?thesis by simp
qed



subsection \<open>Invoice persister\<close>


















subsection \<open>A failed remote mutation writes nothing\<close>

text \<open>
  Claim C5. In every user-initiated handler (create-payment, change-plan, cancel,
  reactivate), a remote subscription mutation that throws leaves the subscriptions table
  exactly as it was: the handler answers with the error and writes nothing. More generally
  create-payment, cancel and reactivate write nothing whenever they answer with an error.
  The one error that change-plan can answer after its write comes from reading the invoice
  for the response, after the remote mutation has succeeded.
\<close>

theorem failed_remote_mutation_leaves_row:
  "((\<forall>i p. isl (subscriptions_update env i p)) \<and> (\<forall>p. isl (subscriptions_create env p)) \<longrightarrow>
      isl (fst (create_payment env preq db)) \<and> snd (create_payment env preq db) = db \<and>
      isl (fst (change_plan env creq db)) \<and> snd (change_plan env creq db) = db \<and>
      isl (fst (cancel_subscription env sid db)) \<and> snd (cancel_subscription env sid db) = db \<and>
      isl (fst (reactivate_subscription env rreq db)) \<and> snd (reactivate_subscription env rreq db) = db \<and>
      isl (fst (reactivate_subscription_recreating env rreq db)) \<and>
      snd (reactivate_subscription_recreating env rreq db) = db) \<and>
   (isl (fst (create_payment env preq db)) \<longrightarrow> snd (create_payment env preq db) = db) \<and>
   (isl (fst (cancel_subscription env sid db)) \<longrightarrow> snd (cancel_subscription env sid db) = db) \<and>
   (isl (fst (reactivate_subscription env rreq db)) \<longrightarrow> snd (reactivate_subscription env rreq db) = db) \<and>
   (isl (fst (reactivate_subscription_recreating env rreq db)) \<longrightarrow>
      snd (reactivate_subscription_recreating env rreq db) = db) \<and>
   (\<forall>e. fst (change_plan env creq db) = Inl e \<longrightarrow>
      snd (change_plan env creq db) = db \<or>
      (\<exists>s. ((\<exists>i p. subscriptions_update env i p = Inr s) \<or> (\<exists>p. subscriptions_create env p = Inr s)) \<and>
           invoices_retrieve env (sub_latest_invoice s) = Inl e))"
proof (intro conjI impI allI)
  assume a: "(\<forall>i p. isl (subscriptions_update env i p)) \<and> (\<forall>p. isl (subscriptions_create env p))"
  note u = a [THEN conjunct1] and c = a [THEN conjunct2]
  show "isl (fst (create_payment env preq db))" "snd (create_payment env preq db) = db"
    using create_payment_fails [OF u c] by simp_all
  show "isl (fst (change_plan env creq db))" "snd (change_plan env creq db) = db"
    using change_plan_fails [OF u c] by simp_all
  show "isl (fst (cancel_subscription env sid db))" "snd (cancel_subscription env sid db) = db"
    using cancel_subscription_fails [OF u] by simp_all
  show "isl (fst (reactivate_subscription env rreq db))" "snd (reactivate_subscription env rreq db) = db"
    using reactivate_subscription_fails [OF u] by simp_all
  show "isl (fst (reactivate_subscription_recreating env rreq db))"
    "snd (reactivate_subscription_recreating env rreq db) = db"
    using reactivate_subscription_recreating_fails [OF u c] by simp_all
next
  assume "isl (fst (create_payment env preq db))"
  then show "snd (create_payment env preq db) = db"
    by (auto simp: isl_def dest: create_payment_error_no_write)
next
  assume "isl (fst (cancel_subscription env sid db))"
  then show "snd (cancel_subscription env sid db) = db"
    by (auto simp: isl_def dest: cancel_subscription_error_no_write)
next
  assume "isl (fst (reactivate_subscription env rreq db))"
  then show "snd (reactivate_subscription env rreq db) = db"
    by (auto simp: isl_def dest: reactivate_subscription_error_no_write)
next
  assume "isl (fst (reactivate_subscription_recreating env rreq db))"
  then show "snd (reactivate_subscription_recreating env rreq db) = db"
    by (auto simp: isl_def dest: reactivate_subscription_recreating_error_no_write)
next
  fix e
  assume "fst (change_plan env creq db) = Inl e"
  then show "snd (change_plan env creq db) = db \<or>
      (\<exists>s. ((\<exists>i p. subscriptions_update env i p = Inr s) \<or> (\<exists>p. subscriptions_create env p = Inr s)) \<and>
           invoices_retrieve env (sub_latest_invoice s) = Inl e)"
    using change_plan_shape [where env = env and req = creq and db = db]
    by (cases "change_plan env creq db") simp
qed

theorem failed_remote_mutation_leaves_row_witness:
  "change_plan ex_env_declined ex_change_req [ex_sub_row] = (Inl ''Your card was declined.'', [ex_sub_row]) \<and>
   cancel_subscription ex_env_declined ''row-1'' [ex_sub_row] = (Inl ''Your card was declined.'', [ex_sub_row]) \<and>
   reactivate_subscription ex_env_declined ex_reactivate_req [ex_sub_row]
     = (Inl ''Your card was declined.'', [ex_sub_row])"
proof -
  have h: "(\<forall>i p. isl (subscriptions_update ex_env_declined i p)) \<and>
           (\<forall>p. isl (subscriptions_create ex_env_declined p))"
    by (simp add: ex_env_declined_def)
  note th = failed_remote_mutation_leaves_row [where env = ex_env_declined and creq = ex_change_req
      and sid = "''row-1''" and rreq = ex_reactivate_req and db = "[ex_sub_row]",
      THEN conjunct1, rule_format, OF h]
  have s1: "snd (change_plan ex_env_declined ex_change_req [ex_sub_row]) = [ex_sub_row]"
    and s2: "snd (cancel_subscription ex_env_declined ''row-1'' [ex_sub_row]) = [ex_sub_row]"
    and s3: "snd (reactivate_subscription ex_env_declined ex_reactivate_req [ex_sub_row]) = [ex_sub_row]"
    using th by simp_all
  have f1: "fst (change_plan ex_env_declined ex_change_req [ex_sub_row]) = Inl ''Your card was declined.''"
    by (simp add: change_plan_def change_plan_update_def ex_env_declined_def ex_env_def ex_change_req_def
        ex_sub_row_def ex_remote_sub_def)
  have f2: "fst (cancel_subscription ex_env_declined ''row-1'' [ex_sub_row]) = Inl ''Your card was declined.''"
    by (simp add: cancel_subscription_def ex_env_declined_def ex_env_def ex_sub_row_def)
  have f3: "fst (reactivate_subscription ex_env_declined ex_reactivate_req [ex_sub_row])
      = Inl ''Your card was declined.''"
    by (simp add: reactivate_subscription_def ex_env_declined_def ex_env_def ex_reactivate_req_def
        ex_sub_row_def ex_remote_sub_def)
  show ?thesis
    using s1 s2 s3 f1 f2 f3 by (simp add: prod_eq_iff)
qed


subsection \<open>Trial fingerprint guard\<close>

lemma duplicates_nonempty:
  "(duplicates db fp uid \<noteq> []) = (\<exists>r \<in> set db. card_fingerprint r = Some fp \<and> user_id r \<noteq> uid)"
proof -
  have "(take 1 xs \<noteq> []) = (xs \<noteq> [])" for xs :: "subscription_row list"
    by (cases xs) simp_all
  then show ?thesis
    by (auto simp: duplicates_def filter_empty_conv)
qed

lemma create_payment_write_has_row:
  assumes "vals = subData uid pt s c (Some fp) now"
  shows "\<exists>r \<in> set (create_payment_write (dbSub_of db uid) vals i db).
           user_id r = uid \<and> card_fingerprint r = Some fp \<and> plan_type r = pt"
proof (cases "dbSub_of db uid")
  case None
  then show ?thesis using assms by (simp add: create_payment_write_def subData_def)
next
  case (Some r)
  then have "filter (\<lambda>r. user_id r = uid) db = [r]"
    unfolding dbSub_of_def by (cases "filter (\<lambda>r. user_id r = uid) db" rule: maybeSingle.cases) simp_all
  then have "r \<in> set (filter (\<lambda>r. user_id r = uid) db)" by simp
  then have "r \<in> set db" by simp
  then have "vals r \<in> set (update_eq_id (row_id r) vals db)"
    by (force simp: update_eq_id_def)
  then show ?thesis using Some assms
    by (auto simp: create_payment_write_def subData_def intro!: bexI [where x = "vals r"])
qed

lemma activeStripeSubId_retrieved:
  "activeStripeSubId_of env dbSub = Some i \<Longrightarrow> \<not> isl (subscriptions_retrieve env i)"
  by (auto simp: activeStripeSubId_of_def split: option.splits if_splits sum.splits)

text \<open>
  Claim C6. A trial request whose payment method has a card fingerprint that the
  subscription row of another user carries fails with the duplicate-trial-card error, and
  the table is left as it was, whatever the provider would answer to the later calls. When
  no row of another user carries the fingerprint, the check lets the request through: with
  a provider that accepts the calls, the request succeeds and the caller's row records the
  trial plan and the fingerprint.
\<close>

theorem duplicate_trial_card_rejected:
  assumes "auth_user env = Some uid"
      and "truthy (req_priceId req)"
      and "req_isTrial req"
      and "truthy (req_paymentMethodId req)"
      and "paymentMethods_retrieve env (the (req_paymentMethodId req)) = Inr (Some fp)"
      and "fp \<noteq> []"
  shows "((\<exists>r \<in> set db. card_fingerprint r = Some fp \<and> user_id r \<noteq> uid) \<longrightarrow>
            create_payment env req db = (Inl ''This card has already been used for a trial.'', db)) \<and>
         ((\<forall>r \<in> set db. card_fingerprint r = Some fp \<longrightarrow> user_id r = uid) \<and>
          (\<forall>u. \<not> isl (customers_create env u)) \<and>
          (\<forall>p c. paymentMethods_attach env p c = None \<and> customers_update env c p = None) \<and>
          (\<forall>i p. \<not> isl (subscriptions_update env i p)) \<and>
          (\<forall>p. \<not> isl (subscriptions_create env p)) \<longrightarrow>
            \<not> isl (fst (create_payment env req db)) \<and>
            (\<exists>r \<in> set (snd (create_payment env req db)).
               user_id r = uid \<and> card_fingerprint r = Some fp \<and> plan_type r = ''trial''))"
proof (intro conjI impI)
  have fp: "cardFingerprint_of env (req_paymentMethodId req) = Some fp"
    using assms by (simp add: cardFingerprint_of_def)
  {
    assume "\<exists>r \<in> set db. card_fingerprint r = Some fp \<and> user_id r \<noteq> uid"
    then have "duplicates db fp uid \<noteq> []" by (simp add: duplicates_nonempty)
    then show "create_payment env req db = (Inl ''This card has already been used for a trial.'', db)"
      using assms fp by (simp add: create_payment_def)
  }
  assume ok: "(\<forall>r \<in> set db. card_fingerprint r = Some fp \<longrightarrow> user_id r = uid) \<and>
          (\<forall>u. \<not> isl (customers_create env u)) \<and>
          (\<forall>p c. paymentMethods_attach env p c = None \<and> customers_update env c p = None) \<and>
          (\<forall>i p. \<not> isl (subscriptions_update env i p)) \<and>
          (\<forall>p. \<not> isl (subscriptions_create env p))"
  then have nodup: "duplicates db fp uid = []"
    using duplicates_nonempty [of db fp uid] by blast
  from ok have "\<not> isl (customer_setup env uid (dbSub_of db uid))"
    by (simp add: customer_setup_def split: option.split)
  then obtain c where c: "customer_setup env uid (dbSub_of db uid) = Inr c"
    by (cases "customer_setup env uid (dbSub_of db uid)") simp_all
  from ok have att: "attach_payment_method env (the (req_paymentMethodId req)) c = None"
    by (simp add: attach_payment_method_def)
  from ok have "\<not> isl (create_payment_mutation env uid req (dbSub_of db uid) c)"
    using activeStripeSubId_retrieved [of env "dbSub_of db uid"]
    by (auto simp: create_payment_mutation_def split: option.split sum.split)
  then obtain s where s: "create_payment_mutation env uid req (dbSub_of db uid) c = Inr s"
    by (cases "create_payment_mutation env uid req (dbSub_of db uid) c") simp_all
  have res: "create_payment env req db =
      (Inr \<lparr> resp_clientSecret = sub_client_secret s, resp_subscriptionId = sub_id s \<rparr>,
       create_payment_write (dbSub_of db uid)
         (subData uid ''trial'' s c (Some fp) (now_ms env)) (new_row_id env) db)"
    using assms fp nodup c att s by (simp add: create_payment_def finalPlanType_def)
  show "\<not> isl (fst (create_payment env req db))"
    by (simp add: res)
  show "\<exists>r \<in> set (snd (create_payment env req db)).
               user_id r = uid \<and> card_fingerprint r = Some fp \<and> plan_type r = ''trial''"
    unfolding res snd_conv by (rule create_payment_write_has_row [OF refl])
qed

theorem duplicate_trial_card_rejected_witness:
  "create_payment ex_env_user2 ex_trial_req [ex_sub_row]
     = (Inl ''This card has already been used for a trial.'', [ex_sub_row]) \<and>
   \<not> isl (fst (create_payment (ex_env_user2\<lparr>paymentMethods_retrieve := (\<lambda>_. Inr (Some ''fp_B''))\<rparr>)
                  ex_trial_req [ex_sub_row]))"
proof -
  let ?env2 = "ex_env_user2\<lparr>paymentMethods_retrieve := (\<lambda>_. Inr (Some ''fp_B''))\<rparr>"
  have a1: "auth_user ex_env_user2 = Some ''user-2''" and a1': "auth_user ?env2 = Some ''user-2''"
    by (simp_all add: ex_env_user2_def)
  have a2: "truthy (req_priceId ex_trial_req)" and a3: "req_isTrial ex_trial_req"
    and a4: "truthy (req_paymentMethodId ex_trial_req)"
    by (simp_all add: ex_trial_req_def)
  have a5: "paymentMethods_retrieve ex_env_user2 (the (req_paymentMethodId ex_trial_req)) = Inr (Some ''fp_A'')"
    by (simp add: ex_env_user2_def ex_env_def)
  have a5': "paymentMethods_retrieve ?env2 (the (req_paymentMethodId ex_trial_req)) = Inr (Some ''fp_B'')"
    by simp
  have a6: "''fp_A'' \<noteq> []" and a6': "''fp_B'' \<noteq> []" by simp_all
  have d: "\<exists>r \<in> set [ex_sub_row]. card_fingerprint r = Some ''fp_A'' \<and> user_id r \<noteq> ''user-2''"
    by (simp add: ex_sub_row_def)
  have ok: "(\<forall>r \<in> set [ex_sub_row]. card_fingerprint r = Some ''fp_B'' \<longrightarrow> user_id r = ''user-2'') \<and>
          (\<forall>u. \<not> isl (customers_create ?env2 u)) \<and>
          (\<forall>p c. paymentMethods_attach ?env2 p c = None \<and> customers_update ?env2 c p = None) \<and>
          (\<forall>i p. \<not> isl (subscriptions_update ?env2 i p)) \<and>
          (\<forall>p. \<not> isl (subscriptions_create ?env2 p))"
    by (simp add: ex_env_user2_def ex_env_def ex_sub_row_def)
  have r1: "create_payment ex_env_user2 ex_trial_req [ex_sub_row]
     = (Inl ''This card has already been used for a trial.'', [ex_sub_row])"
    using duplicate_trial_card_rejected [OF a1 a2 a3 a4 a5 a6, of "[ex_sub_row]"] d by blast
  have r2: "\<not> isl (fst (create_payment ?env2 ex_trial_req [ex_sub_row]))"
    using duplicate_trial_card_rejected [OF a1' a2 a3 a4 a5' a6', of "[ex_sub_row]"] ok by blast
  from r1 r2 show ?thesis by simp
qed


subsection \<open>Downgrade deferral\<close>

lemma change_plan_update_pending:
  "map pending_plan_change (snd (change_plan_update env req cur ss db)) = map pending_plan_change db"
  by (simp add: change_plan_update_def dbUpdate_def Let_def map_update_eq_id split: sum.split)

lemma change_plan_recreate_pending:
  "map pending_plan_change (snd (change_plan_recreate env uid req cur db)) = map pending_plan_change db"
  by (simp add: change_plan_recreate_def dbRecreate_def map_update_eq_id split: sum.split)

lemma change_plan_pending:
  "map pending_plan_change (snd (change_plan env req db)) = map pending_plan_change db"
  unfolding change_plan_def
  by (simp add: change_plan_update_pending change_plan_recreate_pending
        split: option.split sum.split if_split)

text \<open>
  Claim C1. A change from the annual plan to \<open>trial\<close> is a downgrade without interval
  change. On an active row the handler answers that the change takes effect at the end of
  the period and leaves \<open>plan_type\<close> as it was, but \<open>pending_plan_change\<close> stays
  \<open>NULL\<close>: no invocation of the change-plan handler changes that column of any row.
\<close>

theorem change_plan_downgrade_no_pending_marker:
  "isDowngrade ''annual'' ''trial'' \<and> \<not> hasIntervalChange ''annual'' ''trial'' \<and>
   status ex_sub_row = ''active'' \<and> plan_type ex_sub_row = ''annual'' \<and>
   fst (change_plan ex_env ex_downgrade_req [ex_sub_row]) =
     Inr \<lparr> resp_success = True, resp_requiresPayment = False, resp_cp_clientSecret = None,
           resp_message = Some ''Plan change will take effect at the end of your current billing period.'' \<rparr> \<and>
   map plan_type (snd (change_plan ex_env ex_downgrade_req [ex_sub_row])) = [''annual''] \<and>
   map pending_plan_change (snd (change_plan ex_env ex_downgrade_req [ex_sub_row])) = [None] \<and>
   map pending_plan_change (snd (change_plan env req db)) = map pending_plan_change db"
proof -
  have c: "isDowngrade ''annual'' ''trial''" "\<not> hasIntervalChange ''annual'' ''trial''"
    "\<not> isUpgrade ''annual'' ''trial''" "isDowngrade_change_plan ''annual'' ''trial''"
    by (simp_all add: isDowngrade_def isUpgrade_def isDowngrade_change_plan_def hasIntervalChange_def
        planLevel_simps)
  have r: "status ex_sub_row = ''active''" "plan_type ex_sub_row = ''annual''"
    "row_id ex_sub_row = ''row-1''" "user_id ex_sub_row = ''user-1''"
    "stripe_customer_id ex_sub_row = Some ''cus_A''" "stripe_subscription_id ex_sub_row = Some ''sub_A''"
    "pending_plan_change ex_sub_row = None"
    by (simp_all add: ex_sub_row_def)
  have e: "auth_user ex_env = Some ''user-1''" "subscriptions_retrieve ex_env i = Inr ex_remote_sub"
    "subscriptions_update ex_env i p = Inr ex_remote_sub" "now_ms ex_env = 1710000000000" for i p
    by (simp_all add: ex_env_def)
  have s: "sub_status ex_remote_sub = ''active''"
    by (simp add: ex_remote_sub_def)
  have q: "req_newPlanType ex_downgrade_req = Some ''trial''"
    "req_newPriceId ex_downgrade_req = Some ''price_trial''"
    "req_cp_paymentMethodId ex_downgrade_req = None"
    by (simp_all add: ex_downgrade_req_def)
  have run: "change_plan ex_env ex_downgrade_req [ex_sub_row] =
      (Inr \<lparr> resp_success = True, resp_requiresPayment = False, resp_cp_clientSecret = None,
           resp_message = Some ''Plan change will take effect at the end of your current billing period.'' \<rparr>,
       [dbUpdate ''annual'' ''trial'' ex_remote_sub 1710000000000 ex_sub_row])"
    by (simp add: change_plan_def change_plan_update_def change_plan_response_of_def isCurrentlyTrial_def
        update_eq_id_def Let_def r e s q c)
  have w: "plan_type (dbUpdate ''annual'' ''trial'' ex_remote_sub 1710000000000 ex_sub_row) = ''annual''"
    "pending_plan_change (dbUpdate ''annual'' ''trial'' ex_remote_sub 1710000000000 ex_sub_row) = None"
    by (simp_all add: dbUpdate_def Let_def c r)
  show ?thesis
    by (simp add: run w c r change_plan_pending)
qed

theorem change_plan_downgrade_no_pending_marker_witness:
  "map pending_plan_change (snd (change_plan ex_env_canceled ex_downgrade_req [ex_sub_row])) = [None] \<and>
   map plan_type (snd (change_plan ex_env ex_downgrade_req [ex_sub_row])) = [''annual'']"
proof -
  note th = change_plan_downgrade_no_pending_marker [where env = ex_env_canceled and req = ex_downgrade_req
      and db = "[ex_sub_row]"]
  have a: "map pending_plan_change (snd (change_plan ex_env_canceled ex_downgrade_req [ex_sub_row])) = [None]"
    using th by (simp add: ex_sub_row_def)
  have b: "map plan_type (snd (change_plan ex_env ex_downgrade_req [ex_sub_row])) = [''annual'']"
    using th by blast
  from a b show ?thesis by simp
qed


subsection \<open>Reactivation of a canceled subscription\<close>

lemma reactivate_subscription_keeps_id:
  "map stripe_subscription_id (snd (reactivate_subscription env req db)) = map stripe_subscription_id db"
  by (simp add: reactivate_subscription_def Let_def map_update_eq_id split: option.split sum.split if_split)

lemma reactivate_subscription_never_creates:
  "reactivate_subscription (env\<lparr>subscriptions_create := f\<rparr>) req db = reactivate_subscription env req db"
  by (simp add: reactivate_subscription_def Let_def cong: option.case_cong sum.case_cong if_cong)

text \<open>
  Claim C2. The remote subscription is fully canceled and the stored period end is in the
  future. The reactivate handler beside the change-plan handler treats \<open>canceled\<close> like
  \<open>active\<close>: it updates the canceled remote subscription and the row keeps the old
  remote subscription id; it never calls \<open>subscriptions.create\<close> (its result does not
  depend on it) and never changes the remote subscription id of a row. The second
  reactivate handler of the repository does what the claim says: it creates a subscription
  with \<open>trial_end\<close> equal to the stored period end in seconds, and the row takes the new id
  and keeps its plan type.
\<close>

theorem reactivate_canceled_keeps_old_subscription:
  "now_ms ex_env_canceled < current_period_end ex_sub_row \<and>
   current_period_end ex_sub_row div 1000 = 1731536000 \<and>
   reactivate_subscription ex_env_canceled ex_reactivate_req [ex_sub_row] =
     (Inr True, [ex_sub_row\<lparr> status := ''active'', cancel_at_period_end := False,
                              updated_at := 1710000000000 \<rparr>]) \<and>
   map stripe_subscription_id (snd (reactivate_subscription ex_env_canceled ex_reactivate_req [ex_sub_row]))
     = [Some ''sub_A''] \<and>
   reactivate_subscription (env\<lparr>subscriptions_create := f\<rparr>) req db = reactivate_subscription env req db \<and>
   map stripe_subscription_id (snd (reactivate_subscription env req db)) = map stripe_subscription_id db \<and>
   reactivate_subscription_recreating ex_env_canceled ex_reactivate_req [ex_sub_row] =
     (Inr True, [ex_sub_row\<lparr> status := ''active'', stripe_subscription_id := Some ''sub_B'',
                              cancel_at_period_end := False,
                              current_period_start := 1710000000000,
                              current_period_end := 1731536000000,
                              updated_at := 1710000000000 \<rparr>]) \<and>
   map plan_type (snd (reactivate_subscription_recreating ex_env_canceled ex_reactivate_req [ex_sub_row]))
     = [plan_type ex_sub_row]"
  unfolding ex_reactivate_canceled ex_reactivate_recreating_canceled
  by (simp add: ex_canceled_facts reactivate_subscription_keeps_id reactivate_subscription_never_creates)

theorem reactivate_canceled_keeps_old_subscription_witness:
  "map stripe_subscription_id (snd (reactivate_subscription ex_env_declined ex_reactivate_req [ex_sub_row]))
     = [Some ''sub_A''] \<and>
   map stripe_subscription_id (snd (reactivate_subscription ex_env_canceled ex_reactivate_req [ex_sub_row]))
     = [Some ''sub_A'']"
proof -
  note th = reactivate_canceled_keeps_old_subscription [where env = ex_env_declined and req = ex_reactivate_req
      and db = "[ex_sub_row]"]
  have a: "map stripe_subscription_id (snd (reactivate_subscription ex_env_declined ex_reactivate_req [ex_sub_row]))
     = [Some ''sub_A'']"
    using th by (simp add: ex_sub_row_def)
  have b: "map stripe_subscription_id (snd (reactivate_subscription ex_env_canceled ex_reactivate_req [ex_sub_row]))
     = [Some ''sub_A'']"
    using th by blast
  from a b show ?thesis by simp
qed


subsection \<open>Stored period end\<close>













subsection \<open>Update parameters of a plan change\<close>








subsection \<open>Spellings of the canceled status\<close>

lemma cancel_subscription_written:
  "(case cancel_subscription env sid db of
      (Inl e, db') \<Rightarrow> True
    | (Inr ok, db') \<Rightarrow>
        (\<exists>vals. (\<forall>x. status (vals x) = ''cancelled'') \<and> db' = update_eq_id sid vals db))"
proof -
  have a: "\<exists>vals. (\<forall>x. status (vals x) = ''cancelled'') \<and>
     update_eq_id i (\<lambda>r. r\<lparr> cancel_at_period_end := True, status := ''cancelled'', updated_at := now \<rparr>) db
       = update_eq_id i vals db" for i now
    by (rule exI [where x = "\<lambda>r. r\<lparr> cancel_at_period_end := True, status := ''cancelled'', updated_at := now \<rparr>"])
       simp
  show ?thesis
    by (simp add: cancel_subscription_def a split: option.split sum.split if_split)
qed

lemma reactivate_subscription_written:
  "(case reactivate_subscription env req db of
      (Inl e, db') \<Rightarrow> True
    | (Inr ok, db') \<Rightarrow>
        (\<exists>vals. (\<forall>x. status (vals x) = ''active'') \<and> db' = update_eq_id (req_subscriptionId req) vals db))"
proof -
  have a: "\<exists>vals. (\<forall>x. status (vals x) = ''active'') \<and>
     update_eq_id i (\<lambda>r. r\<lparr> status := ''active'', cancel_at_period_end := False, updated_at := now \<rparr>) db
       = update_eq_id i vals db" for i now
    by (rule exI [where x = "\<lambda>r. r\<lparr> status := ''active'', cancel_at_period_end := False, updated_at := now \<rparr>"]) simp
  show ?thesis
    by (simp add: reactivate_subscription_def Let_def a split: option.split sum.split if_split)
qed

lemma reactivate_subscription_recreating_written:
  "(case reactivate_subscription_recreating env req db of
      (Inl e, db') \<Rightarrow> True
    | (Inr ok, db') \<Rightarrow>
        (\<exists>vals. (\<forall>x. status (vals x) = ''active'') \<and> db' = update_eq_id (req_subscriptionId req) vals db))"
proof -
  have a: "\<exists>vals. (\<forall>x. status (vals x) = ''active'') \<and>
     update_eq_id i (\<lambda>r. r\<lparr> status := ''active'', cancel_at_period_end := False, updated_at := now \<rparr>) db
       = update_eq_id i vals db" for i now
    by (rule exI [where x = "\<lambda>r. r\<lparr> status := ''active'', cancel_at_period_end := False, updated_at := now \<rparr>"]) simp
  have b: "\<exists>vals. (\<forall>x. status (vals x) = ''active'') \<and>
     update_eq_id i (\<lambda>r. r\<lparr> status := ''active'', stripe_subscription_id := n,
                         cancel_at_period_end := False, current_period_start := s,
                         current_period_end := e, updated_at := now \<rparr>) db
       = update_eq_id i vals db" for i now n s e
    by (rule exI [where x = "\<lambda>r. r\<lparr> status := ''active'', stripe_subscription_id := n,
                         cancel_at_period_end := False, current_period_start := s,
                         current_period_end := e, updated_at := now \<rparr>"]) simp
  show ?thesis
    by (simp add: reactivate_subscription_recreating_def Let_def a b split: option.split sum.split if_split)
qed

lemma written_status:
  assumes "(case h of (Inl e, db') \<Rightarrow> True
            | (Inr ok, db') \<Rightarrow> (\<exists>vals. (\<forall>x. status (vals x) = st) \<and> db' = update_eq_id i vals db))"
      and "\<not> isl (fst h)"
  shows "\<forall>r \<in> set (snd h). row_id r = i \<longrightarrow> status r = st"
proof -
  obtain res db' where h: "h = (res, db')" by (cases h)
  with assms(2) obtain ok where "res = Inr ok" by (cases res) simp_all
  with assms(1) h obtain vals where "\<And>x. status (vals x) = st" "db' = update_eq_id i vals db"
    by auto
  then show ?thesis using h update_eq_id_status [of vals st i db] by simp
qed

lemma local_status_never_double_l: "local_status s \<noteq> ''cancelled''"
  by (simp add: local_status_def)

lemma getPlanDisplayName_spellings:
  "getPlanDisplayName p ''canceled'' = getPlanDisplayName p ''cancelled'' @ '' (Cancelled)''"
  "getPlanDisplayName p ''cancelled'' = getPlanDisplayName p ''active''"
  by (simp_all add: getPlanDisplayName_def Let_def)

lemma webhook_status_passed:
  assumes "truthy (metadata_user_id sub)"
  shows "map p_status (snd (handleSubscriptionUpdated (\<lambda>a log. Inr (log @ [a])) sub [])) = [local_status (sub_status sub)]"
    and "map p_status (snd (handleSubscriptionDeleted (\<lambda>a log. Inr (log @ [a])) sub [])) = [''canceled'']"
  using assms
  by (simp_all add: handleSubscriptionUpdated_def handleSubscriptionDeleted_def Let_def subscription_rpc_args_def)

text \<open>
  Claim C10 as stated fails in one place: the reactivation paths do not write
  \<open>'canceled'\<close>. On a fully canceled remote subscription both reactivate handlers of the
  repository write the status \<open>'active'\<close>.
\<close>

theorem reactivation_writes_active_counterexample:
  "map status (snd (reactivate_subscription ex_env_canceled ex_reactivate_req [ex_sub_row])) = [''active''] \<and>
   map status (snd (reactivate_subscription_recreating ex_env_canceled ex_reactivate_req [ex_sub_row]))
     = [''active''] \<and>
   ''active'' \<noteq> ''canceled''"
  unfolding ex_reactivate_canceled ex_reactivate_recreating_canceled by simp

text \<open>
  Claim C10, as the code has it. A successful cancel writes \<open>'cancelled'\<close> (double l) to
  the row. The webhook handlers pass \<open>'canceled'\<close> (single l) to the database function
  for a deleted subscription and for an updated one whose remote status is \<open>canceled\<close> or
  \<open>cancelled\<close>, and never pass the double-l spelling. The reactivate handlers test the
  remote status against \<open>'canceled'\<close> and write \<open>'active'\<close>; create-payment and
  change-plan copy the remote status into the row, so the provider's single-l spelling
  reaches the row through them. The plan display compares with the single-l spelling only:
  for a row last written by the cancel handler it shows the name of an active plan.
\<close>

theorem status_spellings:
  "(\<not> isl (fst (cancel_subscription env sid db)) \<longrightarrow>
      (\<forall>r \<in> set (snd (cancel_subscription env sid db)). row_id r = sid \<longrightarrow> status r = ''cancelled'')) \<and>
   local_status ''canceled'' = ''canceled'' \<and> local_status ''cancelled'' = ''canceled'' \<and>
   local_status s \<noteq> ''cancelled'' \<and>
   (truthy (metadata_user_id sub) \<longrightarrow>
      map p_status (snd (handleSubscriptionUpdated (\<lambda>a log. Inr (log @ [a])) sub []))
        = [local_status (sub_status sub)] \<and>
      map p_status (snd (handleSubscriptionDeleted (\<lambda>a log. Inr (log @ [a])) sub [])) = [''canceled'']) \<and>
   (\<not> isl (fst (reactivate_subscription env req db)) \<longrightarrow>
      (\<forall>r \<in> set (snd (reactivate_subscription env req db)).
         row_id r = req_subscriptionId req \<longrightarrow> status r = ''active'')) \<and>
   (\<not> isl (fst (reactivate_subscription_recreating env req db)) \<longrightarrow>
      (\<forall>r \<in> set (snd (reactivate_subscription_recreating env req db)).
         row_id r = req_subscriptionId req \<longrightarrow> status r = ''active'')) \<and>
   status (dbUpdate cp np rs now row) = sub_status rs \<and>
   status (dbRecreate np rs now row) = sub_status rs \<and>
   status (subData uid pt rs c fp now row) = sub_status rs \<and>
   getPlanDisplayName p ''canceled'' = getPlanDisplayName p ''cancelled'' @ '' (Cancelled)'' \<and>
   getPlanDisplayName p ''cancelled'' = getPlanDisplayName p ''active''"
proof (intro conjI impI)
  assume "\<not> isl (fst (cancel_subscription env sid db))"
  with cancel_subscription_written [where env = env and sid = sid and db = db]
  show "\<forall>r \<in> set (snd (cancel_subscription env sid db)). row_id r = sid \<longrightarrow> status r = ''cancelled''"
    by (rule written_status)
next
  assume "\<not> isl (fst (reactivate_subscription env req db))"
  with reactivate_subscription_written [where env = env and req = req and db = db]
  show "\<forall>r \<in> set (snd (reactivate_subscription env req db)).
         row_id r = req_subscriptionId req \<longrightarrow> status r = ''active''"
    by (rule written_status)
next
  assume "\<not> isl (fst (reactivate_subscription_recreating env req db))"
  with reactivate_subscription_recreating_written [where env = env and req = req and db = db]
  show "\<forall>r \<in> set (snd (reactivate_subscription_recreating env req db)).
         row_id r = req_subscriptionId req \<longrightarrow> status r = ''active''"
    by (rule written_status)
next
  assume t: "truthy (metadata_user_id sub)"
  show "map p_status (snd (handleSubscriptionUpdated (\<lambda>a log. Inr (log @ [a])) sub []))
        = [local_status (sub_status sub)]"
    by (rule webhook_status_passed(1) [OF t])
  show "map p_status (snd (handleSubscriptionDeleted (\<lambda>a log. Inr (log @ [a])) sub [])) = [''canceled'']"
    by (rule webhook_status_passed(2) [OF t])
next
  show "local_status ''canceled'' = ''canceled''" "local_status ''cancelled'' = ''canceled''"
    by (simp_all add: local_status_def)
  show "local_status s \<noteq> ''cancelled''" by (rule local_status_never_double_l)
  show "status (dbUpdate cp np rs now row) = sub_status rs"
    by (simp add: dbUpdate_def Let_def)
  show "status (dbRecreate np rs now row) = sub_status rs"
    by (simp add: dbRecreate_def)
  show "status (subData uid pt rs c fp now row) = sub_status rs"
    by (simp add: subData_def)
  show "getPlanDisplayName p ''canceled'' = getPlanDisplayName p ''cancelled'' @ '' (Cancelled)''"
    "getPlanDisplayName p ''cancelled'' = getPlanDisplayName p ''active''"
    by (rule getPlanDisplayName_spellings)+
qed

theorem status_spellings_witness:
  "map status (snd (cancel_subscription ex_env ''row-1'' [ex_sub_row])) = [''cancelled''] \<and>
   map status (snd (change_plan ex_env_canceled ex_change_req [ex_sub_row])) = [''canceled''] \<and>
   map status (snd (reactivate_subscription ex_env_canceled ex_reactivate_req [ex_sub_row])) = [''active''] \<and>
   map p_status (snd (handleSubscriptionDeleted (\<lambda>a log. Inr (log @ [a])) ex_remote_sub [])) = [''canceled''] \<and>
   getPlanDisplayName ''annual'' ''cancelled'' = ''Annual Plan'' \<and>
   getPlanDisplayName ''annual'' ''canceled'' = ''Annual Plan (Cancelled)''"
proof -
  have c: "cancel_subscription ex_env ''row-1'' [ex_sub_row] =
      (Inr True, [ex_sub_row\<lparr> cancel_at_period_end := True, status := ''cancelled'',
                               updated_at := 1710000000000 \<rparr>])"
    by (simp add: cancel_subscription_def update_eq_id_def ex_env_def ex_sub_row_def)
  have h1: "\<not> isl (fst (cancel_subscription ex_env ''row-1'' [ex_sub_row]))"
    by (simp add: c)
  have h2: "\<not> isl (fst (reactivate_subscription ex_env_canceled ex_reactivate_req [ex_sub_row]))"
    by (simp add: ex_reactivate_canceled)
  have h3: "truthy (metadata_user_id ex_remote_sub)"
    by (simp add: metadata_user_id_def ex_remote_sub_def)
  note th = status_spellings [where env = ex_env and sid = "''row-1''" and db = "[ex_sub_row]"
      and sub = ex_remote_sub and p = "''annual''"]
  have "\<forall>r \<in> set (snd (cancel_subscription ex_env ''row-1'' [ex_sub_row])). row_id r = ''row-1'' \<longrightarrow>
          status r = ''cancelled''"
    using th [THEN conjunct1] h1 by blast
  then have a: "map status (snd (cancel_subscription ex_env ''row-1'' [ex_sub_row])) = [''cancelled'']"
    unfolding c by (simp add: ex_sub_row_def)
  have "\<forall>r \<in> set (snd (reactivate_subscription ex_env_canceled ex_reactivate_req [ex_sub_row])).
          row_id r = req_subscriptionId ex_reactivate_req \<longrightarrow> status r = ''active''"
    using status_spellings [where env = ex_env_canceled and req = ex_reactivate_req and db = "[ex_sub_row]",
        THEN conjunct2, THEN conjunct2, THEN conjunct2, THEN conjunct2, THEN conjunct2, THEN conjunct1] h2
    by blast
  then have b: "map status (snd (reactivate_subscription ex_env_canceled ex_reactivate_req [ex_sub_row]))
      = [''active'']"
    unfolding ex_reactivate_canceled by (simp add: ex_canceled_facts)
  have d: "map p_status (snd (handleSubscriptionDeleted (\<lambda>a log. Inr (log @ [a])) ex_remote_sub []))
      = [''canceled'']"
    using th [THEN conjunct2, THEN conjunct2, THEN conjunct2, THEN conjunct2, THEN conjunct1] h3 by blast
  have e: "getPlanDisplayName ''annual'' ''cancelled'' = ''Annual Plan''"
    by (simp add: getPlanDisplayName_def Let_def planNames_def or_str_def)
  have f: "getPlanDisplayName ''annual'' ''canceled'' = ''Annual Plan (Cancelled)''"
    using th [THEN conjunct2, THEN conjunct2, THEN conjunct2, THEN conjunct2, THEN conjunct2,
        THEN conjunct2, THEN conjunct2, THEN conjunct2, THEN conjunct2, THEN conjunct2, THEN conjunct1] e
    by simp
  have g: "map status (snd (change_plan ex_env_canceled ex_change_req [ex_sub_row])) = [''canceled'']"
    by (simp add: change_plan_def change_plan_update_def update_eq_id_def dbUpdate_def Let_def
        ex_canceled_facts ex_change_req_def ex_remote_sub_def)
  from a b d e f g show ?thesis by simp
qed


end
